theory Spec2Isabelle
  imports Complex_Main "HOL-Library.Log_Nat"
begin

section \<open>Car rental service: the date-range calculator\<close>

text \<open>
  The service of \<^verbatim>\<open>index.js\<close> keeps cars and rentals either in MySQL tables or, when
  the connection fails at start-up, in two JavaScript arrays. Both branches of every
  handler are embedded here as state-passing functions.

  Conventions of the embedding.
  \<^item> Money. \<^verbatim>\<open>daily_rate\<close> and \<^verbatim>\<open>total_cost\<close> are \<^verbatim>\<open>DECIMAL(10,2)\<close> columns (strings such
    as \<^verbatim>\<open>'35.00'\<close> in the arrays). They are integers counting cents, and
    \<^verbatim>\<open>(parseFloat(rate) * days).toFixed(2)\<close> is the exact product: the rates of the
    seeded cars are binary fractions, and the rounding of a product stays far below
    half a cent for every cost that a \<^verbatim>\<open>DECIMAL(10,2)\<close> column holds.
  \<^item> Dates. The parser of \<^verbatim>\<open>new Date(s)\<close> belongs to the JavaScript runtime; it is a
    parameter \<open>parse\<close> of every function that needs it, giving the milliseconds since
    the epoch, or \<open>None\<close> where the runtime gives \<^verbatim>\<open>NaN\<close>.
  \<^item> Time. \<^verbatim>\<open>new Date().toISOString()\<close> and \<^verbatim>\<open>CURRENT_TIMESTAMP\<close> are a parameter
    \<open>now\<close>.
\<close>

type_synonym date_parser = "string \<Rightarrow> int option"

text \<open>
  \<^verbatim>\<open>new Date(s).getTime()\<close>: a time value is an integer of at most 8.64e15 in absolute
  value, and \<^verbatim>\<open>NaN\<close> beyond.
\<close>

definition getTime :: "date_parser \<Rightarrow> string \<Rightarrow> int option" where
  "getTime parse s =
     (case parse s of
        None \<Rightarrow> None
      | Some t \<Rightarrow> if \<bar>t\<bar> \<le> 8640000000000000 then Some t else None)"

subsection \<open>Arithmetic on numbers\<close>

text \<open>
  A JavaScript number is an IEEE 754 double, and every arithmetic operation gives the
  double nearest to the exact result, the one with the even significand when two are
  equally near. \<open>double\<close> is that rounding, on rationals: \<open>binade x\<close> is the exponent
  \<open>e\<close> with \<open>2 ^ e \<le> \<bar>x\<bar> < 2 ^ (e + 1)\<close>, and the doubles of that size are the
  multiples of \<open>2 ^ (e - 52)\<close>. Numbers too large or too small for the exponent of a
  double do not occur between two time values and are not treated.
\<close>

definition round_half_even :: "rat \<Rightarrow> int" where
  "round_half_even x =
     (let n = \<lfloor>x\<rfloor>; r = x - of_int n
      in if r < 1 / 2 then n else if 1 / 2 < r then n + 1
         else if even n then n else n + 1)"

definition binade :: "rat \<Rightarrow> int" where
  "binade x =
     (let (a, b) = quotient_of \<bar>x\<bar>; k = bitlen a - bitlen b
      in if power_int 2 k \<le> \<bar>x\<bar> then k else k - 1)"

definition double :: "rat \<Rightarrow> rat" where
  "double x =
     (if x = 0 then 0
      else (let u = power_int 2 (binade x - 52)
            in of_int (round_half_even (x / u)) * u))"

definition msPerDay :: int where
  "msPerDay = 1000 * 60 * 60 * 24"

text \<open>
  \<^verbatim>\<open>Math.ceil((end - start) / msPerDay)\<close>, as \<^verbatim>\<open>daysInclusive\<close> and both MySQL branches
  compute it: the difference is rounded, then the quotient.
\<close>

definition ceilDays :: "int \<Rightarrow> int \<Rightarrow> int" where
  "ceilDays start end = \<lceil>double (double (of_int (end - start)) / of_int msPerDay)\<rceil>"

text \<open>\<^verbatim>\<open>lib/utils.js\<close>, \<^verbatim>\<open>daysInclusive\<close>.\<close>

definition daysInclusive :: "date_parser \<Rightarrow> string \<Rightarrow> string \<Rightarrow> int" where
  "daysInclusive parse startDate endDate =
     (case getTime parse startDate of
        None \<Rightarrow> 0
      | Some start \<Rightarrow>
          (case getTime parse endDate of
             None \<Rightarrow> 0
           | Some end \<Rightarrow>
               if end < start then 0
               else (let days = ceilDays start end + 1 in max 1 days)))"

subsection \<open>Date parsers for concrete runs\<close>

text \<open>
  The date-only form \<^verbatim>\<open>YYYY-MM-DD\<close> of the runtime's parser: a calendar date read as
  midnight UTC. Every other string is rejected here. It instantiates \<open>parse\<close> where a
  statement is evaluated on the dates the tests use.
\<close>

definition digit :: "char \<Rightarrow> int option" where
  "digit c = (let n = (of_char c :: nat) in
                if 48 \<le> n \<and> n \<le> 57 then Some (int n - 48) else None)"

fun digits :: "char list \<Rightarrow> int \<Rightarrow> int option" where
  "digits [] acc = Some acc"
| "digits (c # cs) acc =
     (case digit c of None \<Rightarrow> None | Some d \<Rightarrow> digits cs (10 * acc + d))"

definition leap :: "int \<Rightarrow> bool" where
  "leap y = (y mod 4 = 0 \<and> (y mod 100 \<noteq> 0 \<or> y mod 400 = 0))"

definition daysInMonth :: "int \<Rightarrow> int \<Rightarrow> int" where
  "daysInMonth y m =
     (if m = 2 then (if leap y then 29 else 28)
      else if m = 4 \<or> m = 6 \<or> m = 9 \<or> m = 11 then 30 else 31)"

text \<open>Days between 1970-01-01 and the civil date \<open>y-m-d\<close>.\<close>

definition daysFromCivil :: "int \<Rightarrow> int \<Rightarrow> int \<Rightarrow> int" where
  "daysFromCivil y m d =
     (let y' = (if m \<le> 2 then y - 1 else y);
          era = y' div 400;
          yoe = y' - era * 400;
          mp = (if m > 2 then m - 3 else m + 9);
          doy = (153 * mp + 2) div 5 + d - 1;
          doe = yoe * 365 + yoe div 4 - yoe div 100 + doy
      in era * 146097 + doe - 719468)"

definition isoDate :: date_parser where
  "isoDate s =
     (case s of
        [y1, y2, y3, y4, h1, m1, m2, h2, d1, d2] \<Rightarrow>
          (if h1 = CHR ''-'' \<and> h2 = CHR ''-'' then
             (case (digits [y1, y2, y3, y4] 0, digits [m1, m2] 0, digits [d1, d2] 0) of
                (Some y, Some m, Some d) \<Rightarrow>
                  if 1 \<le> m \<and> m \<le> 12 \<and> 1 \<le> d \<and> d \<le> daysInMonth y m
                  then Some (daysFromCivil y m d * 86400000) else None
              | _ \<Rightarrow> None)
           else None)
      | _ \<Rightarrow> None)"


section \<open>Data model\<close>

text \<open>
  The objects of the two arrays and the rows of the two tables. The field \<^verbatim>\<open>id\<close> is
  \<open>c_id\<close> on a car and \<open>r_id\<close> on a rental, and a car's \<^verbatim>\<open>created_at\<close> is
  \<open>c_created_at\<close>; \<^verbatim>\<open>make\<close>, \<^verbatim>\<open>model\<close> and \<^verbatim>\<open>year\<close> carry the prefix \<open>car_\<close>.
  \<^verbatim>\<open>available\<close> (\<^verbatim>\<open>TINYINT(1)\<close>, 0 or 1) is a boolean. \<^verbatim>\<open>status\<close> is a string: the array
  accepts whatever the request carries, the column is
  \<^verbatim>\<open>ENUM('ongoing','returned','cancelled')\<close>. The dates of a rental are of type \<open>'d\<close>:
  the array keeps the strings of the request, a \<^verbatim>\<open>DATE\<close> column keeps a date, which the
  driver hands to the handlers as a \<^verbatim>\<open>Date\<close>, here its time value.
\<close>

record car =
  c_id :: int
  car_make :: string
  car_model :: string
  car_year :: int
  daily_rate :: int
  available :: bool
  c_created_at :: int

record 'd rental =
  r_id :: int
  car_id :: int
  renter_name :: string
  start_date :: 'd
  end_date :: 'd
  total_cost :: int
  status :: string
  created_at :: int
  updated_at :: int

text \<open>
  What a handler answers on failure: the kind of the specification's taxonomy with the
  message of the response. \<open>http_status\<close> is the status code the handler sends.
\<close>

datatype error =
    ValidationError string
  | NotFoundError string
  | ConflictError string
  | ServerError string

fun http_status :: "error \<Rightarrow> nat" where
  "http_status (ValidationError m) = 400"
| "http_status (NotFoundError m) = 404"
| "http_status (ConflictError m) = 400"
| "http_status (ServerError m) = 500"

text \<open>
  Request bodies. A field that the JSON body does not carry is \<open>None\<close>; \<^verbatim>\<open>car_id\<close> is a
  JSON number, the other fields are JSON strings. \<^verbatim>\<open>!v\<close> holds of an absent field, of the
  number 0 and of the empty string: \<open>truthy_num\<close> and \<open>truthy_str\<close> give the value where
  \<^verbatim>\<open>!v\<close> is false. The \<^verbatim>\<open>:id\<close> of a route is the decimal numeral of an integer \<open>i\<close>:
  \<^verbatim>\<open>Number(id)\<close> is \<open>i\<close>, MySQL compares the key with \<open>i\<close>, and the string itself is
  \<open>decimal i\<close>.
\<close>

record create_body =
  b_car_id :: "int option"
  b_renter_name :: "string option"
  b_start_date :: "string option"
  b_end_date :: "string option"

record update_body =
  u_status :: "string option"
  u_end_date :: "string option"

definition truthy_num :: "int option \<Rightarrow> int option" where
  "truthy_num v = (case v of None \<Rightarrow> None | Some n \<Rightarrow> if n = 0 then None else Some n)"

definition truthy_str :: "string option \<Rightarrow> string option" where
  "truthy_str v = (case v of None \<Rightarrow> None | Some x \<Rightarrow> if x = [] then None else Some x)"

function numeral_of :: "nat \<Rightarrow> string" where
  "numeral_of n =
     (if n < 10 then [char_of (48 + n)]
      else numeral_of (n div 10) @ [char_of (48 + n mod 10)])"
  by pat_completeness auto

termination
  by (relation "measure id") auto

definition decimal :: "int \<Rightarrow> string" where
  "decimal i = (if i < 0 then CHR ''-'' # numeral_of (nat (- i)) else numeral_of (nat i))"

text \<open>
  Response bodies. The in-memory branch of \<^verbatim>\<open>POST /api/rentals\<close> answers the whole rental
  object; the MySQL branch answers the request's fields with the inserted id, without
  \<^verbatim>\<open>status\<close>, \<^verbatim>\<open>created_at\<close> and \<^verbatim>\<open>updated_at\<close>. The in-memory branch of \<^verbatim>\<open>PUT\<close> answers
  the rental's numeric id and its end date, a string; the MySQL branch answers the
  string of the route and, for the end date, the string of the request when there is
  one and the \<^verbatim>\<open>Date\<close> of the row otherwise.
\<close>

record create_reply =
  cr_id :: int
  cr_car_id :: int
  cr_renter_name :: string
  cr_start_date :: string
  cr_end_date :: string
  cr_total_cost :: int
  cr_status :: "string option"
  cr_created_at :: "int option"
  cr_updated_at :: "int option"
  cr_message :: string

record ('i, 'e) update_reply =
  ur_message :: string
  ur_id :: 'i
  ur_status :: string
  ur_end_date :: 'e
  ur_total_cost :: int

datatype end_date_json = Sent string | Stored int

record metrics =
  totalRentals :: nat
  activeRentals :: nat
  totalRevenue :: int

text \<open>The \<^verbatim>\<open>rentals\<close> and \<^verbatim>\<open>revenue\<close> parts of the answer of \<^verbatim>\<open>GET /metrics\<close>.\<close>

record metrics_reply =
  rentals_total :: nat
  rentals_active :: nat
  rentals_completed :: nat
  revenue_total :: int

definition metrics_json :: "metrics \<Rightarrow> metrics_reply" where
  "metrics_json m =
     \<lparr>rentals_total = totalRentals m,
      rentals_active = activeRentals m,
      rentals_completed = totalRentals m - activeRentals m,
      revenue_total = totalRevenue m\<rparr>"

text \<open>The three cars of \<^verbatim>\<open>initDB\<close>, the same in both branches.\<close>

definition sampleCars :: "int \<Rightarrow> car list" where
  "sampleCars now =
     [\<lparr>c_id = 1, car_make = ''Toyota'', car_model = ''Corolla'', car_year = 2020,
       daily_rate = 3500, available = True, c_created_at = now\<rparr>,
      \<lparr>c_id = 2, car_make = ''Honda'', car_model = ''Civic'', car_year = 2019,
       daily_rate = 3750, available = True, c_created_at = now\<rparr>,
      \<lparr>c_id = 3, car_make = ''Ford'', car_model = ''Focus'', car_year = 2018,
       daily_rate = 3000, available = True, c_created_at = now\<rparr>]"

section \<open>The in-memory store\<close>

record im_store =
  inMemoryCars :: "car list"
  inMemoryRentals :: "string rental list"

definition initDB_im :: "int \<Rightarrow> im_store" where
  "initDB_im now = \<lparr>inMemoryCars = sampleCars now, inMemoryRentals = []\<rparr>"

text \<open>
  \<^verbatim>\<open>find\<close> gives a reference to the first element that satisfies the test, and the
  handlers assign to its fields: \<open>update_first\<close> is that assignment on the list.
  \<open>splice_first\<close> is \<^verbatim>\<open>findIndex\<close> followed by \<^verbatim>\<open>splice(idx, 1)\<close>.
\<close>

fun update_first :: "('a \<Rightarrow> bool) \<Rightarrow> ('a \<Rightarrow> 'a) \<Rightarrow> 'a list \<Rightarrow> 'a list" where
  "update_first P f [] = []"
| "update_first P f (x # xs) = (if P x then f x # xs else x # update_first P f xs)"

fun splice_first :: "('a \<Rightarrow> bool) \<Rightarrow> 'a list \<Rightarrow> 'a list" where
  "splice_first P [] = []"
| "splice_first P (x # xs) = (if P x then xs else x # splice_first P xs)"

text \<open>
  \<^verbatim>\<open>inMemoryRentals.length ? Math.max(...inMemoryRentals.map(r => r.id)) + 1 : 1\<close>
\<close>

definition newId :: "'d rental list \<Rightarrow> int" where
  "newId rentals =
     (case map r_id rentals of [] \<Rightarrow> 1 | x # xs \<Rightarrow> fold max xs x + 1)"

definition updateMetrics_im :: "im_store \<Rightarrow> metrics" where
  "updateMetrics_im s =
     \<lparr>totalRentals = length (inMemoryRentals s),
      activeRentals = length (filter (\<lambda>r. status r = ''ongoing'') (inMemoryRentals s)),
      totalRevenue = foldl (\<lambda>sum r. sum + total_cost r) 0 (inMemoryRentals s)\<rparr>"

definition create_im ::
  "date_parser \<Rightarrow> int \<Rightarrow> create_body \<Rightarrow> im_store \<Rightarrow> im_store \<times> (error + create_reply)" where
  "create_im parse now body s =
     (case (truthy_num (b_car_id body), truthy_str (b_renter_name body),
            truthy_str (b_start_date body), truthy_str (b_end_date body)) of
        (Some cid, Some name, Some sd, Some ed) \<Rightarrow>
          (case find (\<lambda>c. c_id c = cid) (inMemoryCars s) of
             None \<Rightarrow> (s, Inl (NotFoundError ''Car not found''))
           | Some car \<Rightarrow>
               if \<not> available car
               then (s, Inl (ConflictError ''Car is not available for rental''))
               else
                 (let days = daysInclusive parse sd ed in
                  if days = 0 then (s, Inl (ValidationError ''Invalid dates''))
                  else
                    (let cost = daily_rate car * days;
                         new = newId (inMemoryRentals s);
                         rental = \<lparr>r_id = new, car_id = cid, renter_name = name,
                                   start_date = sd, end_date = ed, total_cost = cost,
                                   status = ''ongoing'', created_at = now, updated_at = now\<rparr>
                     in (s\<lparr>inMemoryRentals := inMemoryRentals s @ [rental],
                           inMemoryCars :=
                             update_first (\<lambda>c. c_id c = cid) (\<lambda>c. c\<lparr>available := False\<rparr>)
                               (inMemoryCars s)\<rparr>,
                         Inr \<lparr>cr_id = new, cr_car_id = cid, cr_renter_name = name,
                              cr_start_date = sd, cr_end_date = ed, cr_total_cost = cost,
                              cr_status = Some ''ongoing'', cr_created_at = Some now,
                              cr_updated_at = Some now,
                              cr_message = ''Rental created (in-memory)''\<rparr>))))
      | _ \<Rightarrow>
          (s, Inl (ValidationError
                 ''car_id, renter_name, start_date and end_date are required'')))"

text \<open>
  \<^verbatim>\<open>PUT /api/rentals/:id\<close>. Reading \<^verbatim>\<open>car.daily_rate\<close> of a car that \<^verbatim>\<open>find\<close> did not
  find throws, and the handler's \<^verbatim>\<open>catch\<close> answers 500; the throw comes after the
  check of the day count and before any assignment.
\<close>

definition update_im ::
  "date_parser \<Rightarrow> int \<Rightarrow> int \<Rightarrow> update_body \<Rightarrow> im_store
     \<Rightarrow> im_store \<times> (error + (int, string) update_reply)" where
  "update_im parse now i body s =
     (case find (\<lambda>r. r_id r = i) (inMemoryRentals s) of
        None \<Rightarrow> (s, Inl (NotFoundError ''Rental not found''))
      | Some rental \<Rightarrow>
          (case (case truthy_str (u_end_date body) of
                   None \<Rightarrow> Inr rental
                 | Some ed \<Rightarrow>
                     (let car = find (\<lambda>c. c_id c = car_id rental) (inMemoryCars s);
                          days = daysInclusive parse (start_date rental) ed
                      in if days = 0 then Inl (ValidationError ''Invalid end_date'')
                         else (case car of
                                 None \<Rightarrow> Inl (ServerError ''Failed to update rental'')
                               | Some c \<Rightarrow>
                                   Inr (rental\<lparr>end_date := ed,
                                               total_cost := daily_rate c * days\<rparr>)))) of
             Inl e \<Rightarrow> (s, Inl e)
           | Inr rental1 \<Rightarrow>
               (let (rental2, cars2) =
                      (case truthy_str (u_status body) of
                         None \<Rightarrow> (rental1, inMemoryCars s)
                       | Some st \<Rightarrow>
                           (rental1\<lparr>status := st\<rparr>,
                            if st = ''returned''
                            then update_first (\<lambda>c. c_id c = car_id rental1)
                                   (\<lambda>c. c\<lparr>available := True\<rparr>) (inMemoryCars s)
                            else inMemoryCars s));
                    rental3 = rental2\<lparr>updated_at := now\<rparr>
                in (s\<lparr>inMemoryRentals :=
                        update_first (\<lambda>r. r_id r = i) (\<lambda>r. rental3) (inMemoryRentals s),
                      inMemoryCars := cars2\<rparr>,
                    Inr \<lparr>ur_message = ''Rental updated (in-memory)'', ur_id = r_id rental3,
                         ur_status = status rental3, ur_end_date = end_date rental3,
                         ur_total_cost = total_cost rental3\<rparr>))))"

definition delete_im :: "int \<Rightarrow> im_store \<Rightarrow> im_store \<times> (error + string)" where
  "delete_im i s =
     (case find (\<lambda>r. r_id r = i) (inMemoryRentals s) of
        None \<Rightarrow> (s, Inl (NotFoundError ''Rental not found''))
      | Some r \<Rightarrow>
          (s\<lparr>inMemoryRentals := splice_first (\<lambda>r. r_id r = i) (inMemoryRentals s)\<rparr>,
           Inr ''Rental deleted (in-memory)''))"

section \<open>The MySQL store\<close>

text \<open>
  The two tables of \<^verbatim>\<open>initDB\<close> as lists of rows, with the counter of the rentals'
  \<^verbatim>\<open>AUTO_INCREMENT\<close> key. Of the server this is modelled. A statement runs to its end.
  \<^verbatim>\<open>INSERT\<close> gives the row the counter's value and advances the counter, and fills
  \<^verbatim>\<open>status\<close> with its default and both timestamps with the current time. An \<^verbatim>\<open>UPDATE\<close>
  that changes a row stamps its \<^verbatim>\<open>updated_at\<close>. A value that the type of its column
  rejects makes the statement fail and leaves the tables as they were, and the
  handler's \<^verbatim>\<open>catch\<close> answers 500: a name of more than 255 characters for
  \<^verbatim>\<open>VARCHAR(255)\<close>, a cost of more than ten digits for \<^verbatim>\<open>DECIMAL(10,2)\<close>, a status outside
  the \<^verbatim>\<open>ENUM\<close>, and a string that is no date for \<^verbatim>\<open>DATE\<close>. What MySQL reads as a date is
  a parameter \<open>to_date\<close>, like the parser of the runtime: it gives the time value of
  the \<^verbatim>\<open>Date\<close> that the driver makes of the stored date, or \<open>None\<close> for a string that
  the column rejects.
\<close>

record db_store =
  cars_tbl :: "car list"
  rentals_tbl :: "int rental list"
  rentals_auto_increment :: int

text \<open>The first run of \<^verbatim>\<open>initDB\<close>, on empty tables.\<close>

definition initDB_db :: "int \<Rightarrow> db_store" where
  "initDB_db now =
     \<lparr>cars_tbl = sampleCars now, rentals_tbl = [], rentals_auto_increment = 1\<rparr>"

definition valid_status :: "string \<Rightarrow> bool" where
  "valid_status st = (st = ''ongoing'' \<or> st = ''returned'' \<or> st = ''cancelled'')"

text \<open>\<^verbatim>\<open>renter_name VARCHAR(255)\<close> and \<^verbatim>\<open>total_cost DECIMAL(10,2)\<close>, the cost in cents.\<close>

definition fits_varchar255 :: "string \<Rightarrow> bool" where
  "fits_varchar255 name = (length name \<le> 255)"

definition fits_decimal_10_2 :: "int \<Rightarrow> bool" where
  "fits_decimal_10_2 cost = (\<bar>cost\<bar> \<le> 9999999999)"

definition updateMetrics_db :: "db_store \<Rightarrow> metrics" where
  "updateMetrics_db s =
     \<lparr>totalRentals = length (rentals_tbl s),
      activeRentals = length (filter (\<lambda>r. status r = ''ongoing'') (rentals_tbl s)),
      totalRevenue =
        sum_list (map total_cost
          (filter (\<lambda>r. status r = ''ongoing'' \<or> status r = ''returned'') (rentals_tbl s)))\<rparr>"

text \<open>
  \<^verbatim>\<open>POST /api/rentals\<close>. When the \<^verbatim>\<open>INSERT\<close> fails, the \<^verbatim>\<open>UPDATE\<close> of the car is not
  reached.
\<close>

definition create_db ::
  "date_parser \<Rightarrow> date_parser \<Rightarrow> int \<Rightarrow> create_body \<Rightarrow> db_store
     \<Rightarrow> db_store \<times> (error + create_reply)" where
  "create_db parse to_date now body s =
     (case (truthy_num (b_car_id body), truthy_str (b_renter_name body),
            truthy_str (b_start_date body), truthy_str (b_end_date body)) of
        (Some cid, Some name, Some sd, Some ed) \<Rightarrow>
          (case filter (\<lambda>c. c_id c = cid) (cars_tbl s) of
             [] \<Rightarrow> (s, Inl (NotFoundError ''Car not found''))
           | car # _ \<Rightarrow>
               if \<not> available car
               then (s, Inl (ConflictError ''Car is not available for rental''))
               else
                 (case (getTime parse sd, getTime parse ed) of
                    (Some start, Some end) \<Rightarrow>
                      if end < start then (s, Inl (ValidationError ''Invalid dates''))
                      else
                        (let days = ceilDays start end + 1;
                             cost = daily_rate car * days
                         in case (to_date sd, to_date ed) of
                              (Some start_col, Some end_col) \<Rightarrow>
                                if fits_varchar255 name \<and> fits_decimal_10_2 cost
                                then
                                  (let insertId = rentals_auto_increment s;
                                       row = \<lparr>r_id = insertId, car_id = cid,
                                              renter_name = name, start_date = start_col,
                                              end_date = end_col, total_cost = cost,
                                              status = ''ongoing'', created_at = now,
                                              updated_at = now\<rparr>
                                   in (s\<lparr>rentals_tbl := rentals_tbl s @ [row],
                                         rentals_auto_increment := insertId + 1,
                                         cars_tbl :=
                                           map (\<lambda>c. if c_id c = cid
                                                     then c\<lparr>available := False\<rparr> else c)
                                             (cars_tbl s)\<rparr>,
                                       Inr \<lparr>cr_id = insertId, cr_car_id = cid,
                                            cr_renter_name = name, cr_start_date = sd,
                                            cr_end_date = ed, cr_total_cost = cost,
                                            cr_status = None, cr_created_at = None,
                                            cr_updated_at = None,
                                            cr_message = ''Rental created''\<rparr>))
                                else (s, Inl (ServerError ''Failed to create rental''))
                            | _ \<Rightarrow> (s, Inl (ServerError ''Failed to create rental'')))
                  | _ \<Rightarrow> (s, Inl (ValidationError ''Invalid dates''))))
      | _ \<Rightarrow>
          (s, Inl (ValidationError
                 ''car_id, renter_name, start_date and end_date are required'')))"

text \<open>
  \<^verbatim>\<open>PUT /api/rentals/:id\<close>. The start of the rental is the \<^verbatim>\<open>Date\<close> of the row, and only
  the new end date is tested with \<^verbatim>\<open>isNaN\<close>. A missing car row throws at
  \<^verbatim>\<open>car.daily_rate\<close>, after the test of the dates. The \<^verbatim>\<open>UPDATE\<close> writes the end date of
  the request, or the row's own; the cost it has computed, or the row's own; the status
  of the request, or the row's own. It answers the \<^verbatim>\<open>id\<close> of the route.
\<close>

definition update_db ::
  "date_parser \<Rightarrow> date_parser \<Rightarrow> int \<Rightarrow> int \<Rightarrow> update_body \<Rightarrow> db_store
     \<Rightarrow> db_store \<times> (error + (string, end_date_json) update_reply)" where
  "update_db parse to_date now i body s =
     (case filter (\<lambda>r. r_id r = i) (rentals_tbl s) of
        [] \<Rightarrow> (s, Inl (NotFoundError ''Rental not found''))
      | rental # _ \<Rightarrow>
          (case (case truthy_str (u_end_date body) of
                   None \<Rightarrow> Inr (total_cost rental, end_date rental, Stored (end_date rental))
                 | Some ed \<Rightarrow>
                     (let carRows = filter (\<lambda>c. c_id c = car_id rental) (cars_tbl s);
                          start = start_date rental
                      in case getTime parse ed of
                           None \<Rightarrow> Inl (ValidationError ''Invalid end_date'')
                         | Some end \<Rightarrow>
                             if end < start then Inl (ValidationError ''Invalid end_date'')
                             else
                               (case carRows of
                                  [] \<Rightarrow> Inl (ServerError ''Failed to update rental'')
                                | car # _ \<Rightarrow>
                                    (let days = ceilDays start end + 1;
                                         cost = daily_rate car * days
                                     in case to_date ed of
                                          None \<Rightarrow> Inl (ServerError ''Failed to update rental'')
                                        | Some end_col \<Rightarrow>
                                            if \<not> fits_decimal_10_2 cost
                                            then Inl (ServerError ''Failed to update rental'')
                                            else Inr (cost, end_col, Sent ed))))) of
             Inl e \<Rightarrow> (s, Inl e)
           | Inr (cost, new_end, answered_end) \<Rightarrow>
               (let new_status = (case truthy_str (u_status body) of
                                    None \<Rightarrow> status rental | Some st \<Rightarrow> st)
                in if \<not> valid_status new_status
                   then (s, Inl (ServerError ''Failed to update rental''))
                   else
                     (s\<lparr>rentals_tbl :=
                          map (\<lambda>r. if r_id r = i
                                    then (let r' = r\<lparr>end_date := new_end, total_cost := cost,
                                                      status := new_status\<rparr>
                                          in if r' = r then r else r'\<lparr>updated_at := now\<rparr>)
                                    else r)
                            (rentals_tbl s),
                        cars_tbl :=
                          (if u_status body = Some ''returned''
                           then map (\<lambda>c. if c_id c = car_id rental
                                          then c\<lparr>available := True\<rparr> else c) (cars_tbl s)
                           else cars_tbl s)\<rparr>,
                      Inr \<lparr>ur_message = ''Rental updated'', ur_id = decimal i,
                           ur_status = new_status, ur_end_date = answered_end,
                           ur_total_cost = cost\<rparr>))))"

definition delete_db :: "int \<Rightarrow> db_store \<Rightarrow> db_store \<times> (error + string)" where
  "delete_db i s =
     (let affectedRows = length (filter (\<lambda>r. r_id r = i) (rentals_tbl s)) in
      if affectedRows = 0 then (s, Inl (NotFoundError ''Rental not found''))
      else (s\<lparr>rentals_tbl := filter (\<lambda>r. r_id r \<noteq> i) (rentals_tbl s)\<rparr>,
            Inr ''Rental deleted''))"

section \<open>Sequences of requests\<close>

text \<open>
  A client that sends the same requests to a server on either store and records every
  answer. The clock advances by one with each request.
\<close>

datatype request =
    GetCars
  | PostRental create_body
  | PutRental int update_body
  | DeleteRental int
  | GetMetrics

datatype ('i, 'e) answer =
    Cars "car list"
  | Created "error + create_reply"
  | Updated "error + ('i, 'e) update_reply"
  | Deleted "error + string"
  | Metrics metrics_reply

fun handle_im ::
  "date_parser \<Rightarrow> int \<Rightarrow> request \<Rightarrow> im_store \<Rightarrow> im_store \<times> (int, string) answer" where
  "handle_im parse now GetCars s = (s, Cars (inMemoryCars s))"
| "handle_im parse now (PostRental body) s =
     (let (s', a) = create_im parse now body s in (s', Created a))"
| "handle_im parse now (PutRental i body) s =
     (let (s', a) = update_im parse now i body s in (s', Updated a))"
| "handle_im parse now (DeleteRental i) s =
     (let (s', a) = delete_im i s in (s', Deleted a))"
| "handle_im parse now GetMetrics s = (s, Metrics (metrics_json (updateMetrics_im s)))"

fun handle_db ::
  "date_parser \<Rightarrow> date_parser \<Rightarrow> int \<Rightarrow> request \<Rightarrow> db_store
     \<Rightarrow> db_store \<times> (string, end_date_json) answer" where
  "handle_db parse to_date now GetCars s = (s, Cars (sort_key c_id (cars_tbl s)))"
| "handle_db parse to_date now (PostRental body) s =
     (let (s', a) = create_db parse to_date now body s in (s', Created a))"
| "handle_db parse to_date now (PutRental i body) s =
     (let (s', a) = update_db parse to_date now i body s in (s', Updated a))"
| "handle_db parse to_date now (DeleteRental i) s =
     (let (s', a) = delete_db i s in (s', Deleted a))"
| "handle_db parse to_date now GetMetrics s =
     (s, Metrics (metrics_json (updateMetrics_db s)))"

fun run_im ::
  "date_parser \<Rightarrow> int \<Rightarrow> request list \<Rightarrow> im_store \<Rightarrow> (int, string) answer list" where
  "run_im parse now [] s = []"
| "run_im parse now (q # qs) s =
     (let (s', a) = handle_im parse now q s in a # run_im parse (now + 1) qs s')"

fun run_db ::
  "date_parser \<Rightarrow> date_parser \<Rightarrow> int \<Rightarrow> request list \<Rightarrow> db_store
     \<Rightarrow> (string, end_date_json) answer list" where
  "run_db parse to_date now [] s = []"
| "run_db parse to_date now (q # qs) s =
     (let (s', a) = handle_db parse to_date now q s
      in a # run_db parse to_date (now + 1) qs s')"

section \<open>Vocabulary of the statements\<close>

text \<open>
  The guard \<^verbatim>\<open>!car_id || !renter_name || !start_date || !end_date\<close> of the \<^verbatim>\<open>POST\<close>
  handler, and its negation with the four values named.
\<close>

definition required_missing :: "create_body \<Rightarrow> bool" where
  "required_missing body =
     (truthy_num (b_car_id body) = None \<or> truthy_str (b_renter_name body) = None
      \<or> truthy_str (b_start_date body) = None \<or> truthy_str (b_end_date body) = None)"

definition present :: "create_body \<Rightarrow> int \<Rightarrow> string \<Rightarrow> string \<Rightarrow> string \<Rightarrow> bool" where
  "present body cid name sd ed =
     (truthy_num (b_car_id body) = Some cid \<and> truthy_str (b_renter_name body) = Some name
      \<and> truthy_str (b_start_date body) = Some sd \<and> truthy_str (b_end_date body) = Some ed)"

text \<open>
  What the \<^verbatim>\<open>INSERT\<close> of the \<^verbatim>\<open>POST\<close> handler needs of its values: a name, two dates and
  a cost that their columns take.
\<close>

definition insert_accepted :: "date_parser \<Rightarrow> string \<Rightarrow> string \<Rightarrow> string \<Rightarrow> int \<Rightarrow> bool" where
  "insert_accepted to_date name sd ed cost =
     (to_date sd \<noteq> None \<and> to_date ed \<noteq> None \<and> fits_varchar255 name
      \<and> fits_decimal_10_2 cost)"

text \<open>The car a rental refers to, as each store looks it up, and its flag.\<close>

definition getCar_im :: "im_store \<Rightarrow> int \<Rightarrow> car option" where
  "getCar_im s cid = find (\<lambda>c. c_id c = cid) (inMemoryCars s)"

definition getCar_db :: "db_store \<Rightarrow> int \<Rightarrow> car option" where
  "getCar_db s cid =
     (case filter (\<lambda>c. c_id c = cid) (cars_tbl s) of [] \<Rightarrow> None | car # _ \<Rightarrow> Some car)"

definition getRental_im :: "im_store \<Rightarrow> int \<Rightarrow> string rental option" where
  "getRental_im s i = find (\<lambda>r. r_id r = i) (inMemoryRentals s)"

definition getRental_db :: "db_store \<Rightarrow> int \<Rightarrow> int rental option" where
  "getRental_db s i =
     (case filter (\<lambda>r. r_id r = i) (rentals_tbl s) of [] \<Rightarrow> None | rental # _ \<Rightarrow> Some rental)"

text \<open>The requests of the tests, used where a statement is run on concrete data.\<close>

definition alice :: create_body where
  "alice = \<lparr>b_car_id = Some 1, b_renter_name = Some ''Alice'',
            b_start_date = Some ''2025-01-01'', b_end_date = Some ''2025-01-03''\<rparr>"

definition bob :: create_body where
  "bob = \<lparr>b_car_id = Some 2, b_renter_name = Some ''Bob'',
          b_start_date = Some ''2025-01-01'', b_end_date = Some ''2025-01-05''\<rparr>"

definition set_status :: "string \<Rightarrow> update_body" where
  "set_status st = \<lparr>u_status = Some st, u_end_date = None\<rparr>"

definition set_end_date :: "string \<Rightarrow> update_body" where
  "set_end_date ed = \<lparr>u_status = None, u_end_date = Some ed\<rparr>"

definition reversed :: create_body where
  "reversed = \<lparr>b_car_id = Some 1, b_renter_name = Some ''Carol'',
               b_start_date = Some ''2025-01-05'', b_end_date = Some ''2025-01-01''\<rparr>"

definition unknown_car :: create_body where
  "unknown_car = \<lparr>b_car_id = Some 999, b_renter_name = Some ''Alice'',
                  b_start_date = Some ''2025-01-01'', b_end_date = Some ''2025-01-03''\<rparr>"

definition only_car_id :: create_body where
  "only_car_id = \<lparr>b_car_id = Some 1, b_renter_name = None,
                  b_start_date = None, b_end_date = None\<rparr>"

text \<open>
  Either store after Alice's rental of car 1, made at time 1 on the seeded store. The
  \<^verbatim>\<open>DATE\<close> columns read the dates of the tests as the runtime does.
\<close>

definition rented_im :: im_store where
  "rented_im = fst (create_im isoDate 1 alice (initDB_im 0))"

definition rented_db :: db_store where
  "rented_db = fst (create_db isoDate isoDate 1 alice (initDB_db 0))"

text \<open>The same stores after the rental was marked returned, or cancelled, at time 2.\<close>

definition returned_im :: im_store where
  "returned_im = fst (update_im isoDate 2 1 (set_status ''returned'') rented_im)"

definition returned_db :: db_store where
  "returned_db = fst (update_db isoDate isoDate 2 1 (set_status ''returned'') rented_db)"

definition cancelled_im :: im_store where
  "cancelled_im = fst (update_im isoDate 2 1 (set_status ''cancelled'') rented_im)"

definition cancelled_db :: db_store where
  "cancelled_db = fst (update_db isoDate isoDate 2 1 (set_status ''cancelled'') rented_db)"

definition toyota :: "bool \<Rightarrow> car" where
  "toyota a = \<lparr>c_id = 1, car_make = ''Toyota'', car_model = ''Corolla'', car_year = 2020,
       daily_rate = 3500, available = a, c_created_at = 0\<rparr>"

text \<open>
  Alice's rental with the status \<open>st\<close>, last changed at \<open>t\<close>: the object of the array,
  and the row of the table, whose dates are 2025-01-01 and 2025-01-03.
\<close>

definition alice_rental :: "string \<Rightarrow> int \<Rightarrow> string rental" where
  "alice_rental st t =
     \<lparr>r_id = 1, car_id = 1, renter_name = ''Alice'', start_date = ''2025-01-01'',
      end_date = ''2025-01-03'', total_cost = 10500, status = st,
      created_at = 1, updated_at = t\<rparr>"

definition alice_row :: "string \<Rightarrow> int \<Rightarrow> int rental" where
  "alice_row st t =
     \<lparr>r_id = 1, car_id = 1, renter_name = ''Alice'', start_date = 1735689600000,
      end_date = 1735862400000, total_cost = 10500, status = st,
      created_at = 1, updated_at = t\<rparr>"

text \<open>The answers to a \<^verbatim>\<open>PUT\<close> of a status alone on that rental.\<close>

definition alice_reply_im :: "string \<Rightarrow> (int, string) update_reply" where
  "alice_reply_im st =
     \<lparr>ur_message = ''Rental updated (in-memory)'', ur_id = 1, ur_status = st,
      ur_end_date = ''2025-01-03'', ur_total_cost = 10500\<rparr>"

definition alice_reply_db :: "string \<Rightarrow> (string, end_date_json) update_reply" where
  "alice_reply_db st =
     \<lparr>ur_message = ''Rental updated'', ur_id = ''1'', ur_status = st,
      ur_end_date = Stored 1735862400000, ur_total_cost = 10500\<rparr>"

text \<open>
  The invariant of the \<^verbatim>\<open>AUTO_INCREMENT\<close> key: every id in the table lies below
  the counter.
\<close>

definition ids_below_counter :: "db_store \<Rightarrow> bool" where
  "ids_below_counter d = list_all (\<lambda>r. r_id r < rentals_auto_increment d) (rentals_tbl d)"

section \<open>Properties of the date-range calculator\<close>


subsection \<open>Rounding\<close>



lemma round_half_even_nonneg: "0 \<le> x \<Longrightarrow> 0 \<le> round_half_even x"
  by (auto simp: round_half_even_def Let_def)





lemma double_nonneg: "0 \<le> x \<Longrightarrow> 0 \<le> double x"
proof (cases "x = 0")
  case True
  then show ?thesis by (simp add: double_def)
next
  case False
  assume "0 \<le> x"
  then have "0 \<le> x / power_int 2 (binade x - 52)"
    by (simp add: zero_le_power_int)
  then have "0 \<le> round_half_even (x / power_int 2 (binade x - 52))"
    by (rule round_half_even_nonneg)
  then show ?thesis
    using False by (simp add: double_def Let_def zero_le_power_int)
qed



lemma ceilDays_nonneg: "s \<le> e \<Longrightarrow> 0 \<le> ceilDays s e"
proof -
  assume "s \<le> e"
  then have "0 \<le> double (of_int (e - s))"
    by (intro double_nonneg) simp
  then have "0 \<le> double (double (of_int (e - s)) / of_int msPerDay)"
    by (intro double_nonneg) (simp add: msPerDay_def)
  then show ?thesis
    unfolding ceilDays_def by (smt (verit) ceiling_le_zero ceiling_mono ceiling_zero)
qed

subsection \<open>The day count\<close>



text \<open>Once both dates parse and are in order, the guard \<^verbatim>\<open>Math.max(1, days)\<close> is idle.\<close>

lemma daysInclusive_ordered:
  assumes "getTime parse a = Some s" "getTime parse b = Some e" "s \<le> e"
  shows "daysInclusive parse a b = ceilDays s e + 1"
  using assms ceilDays_nonneg [of s e] by (simp add: daysInclusive_def Let_def)

lemma daysInclusive_pos:
  assumes "getTime parse a = Some s" "getTime parse b = Some e" "s \<le> e"
  shows "0 < daysInclusive parse a b"
  using assms ceilDays_nonneg [of s e] by (simp add: daysInclusive_ordered)

lemma daysInclusive_zero_cases:
  "daysInclusive parse sd ed = 0 \<Longrightarrow>
     getTime parse sd = None \<or> getTime parse ed = None
     \<or> (\<exists>a b. getTime parse sd = Some a \<and> getTime parse ed = Some b \<and> b < a)"
  using daysInclusive_pos [of parse sd _ ed]
  by (cases "getTime parse sd"; cases "getTime parse ed") force+

lemma daysInclusive_nonzero_cases:
  "daysInclusive parse sd ed \<noteq> 0 \<Longrightarrow>
     \<exists>a b. getTime parse sd = Some a \<and> getTime parse ed = Some b \<and> a \<le> b"
  by (auto simp: daysInclusive_def split: option.splits if_splits)




section \<open>The paths of the \<^verbatim>\<open>POST\<close> handler\<close>

lemma required_missing_iff:
  "\<not> required_missing body \<longleftrightarrow> (\<exists>cid name sd ed. present body cid name sd ed)"
  by (auto simp: required_missing_def present_def)

lemma find_filter_conv:
  "find P xs = (case filter P xs of [] \<Rightarrow> None | x # _ \<Rightarrow> Some x)"
  by (induction xs) auto

lemma create_im_missing:
  "required_missing body \<Longrightarrow>
   create_im parse now body s =
     (s, Inl (ValidationError ''car_id, renter_name, start_date and end_date are required''))"
  by (auto simp: required_missing_def create_im_def split: option.splits)

lemma create_im_not_found:
  "present body cid name sd ed \<Longrightarrow> getCar_im s cid = None \<Longrightarrow>
   create_im parse now body s = (s, Inl (NotFoundError ''Car not found''))"
  by (simp add: present_def create_im_def getCar_im_def)

lemma create_im_unavailable:
  "present body cid name sd ed \<Longrightarrow> getCar_im s cid = Some car \<Longrightarrow> \<not> available car \<Longrightarrow>
   create_im parse now body s = (s, Inl (ConflictError ''Car is not available for rental''))"
  by (simp add: present_def create_im_def getCar_im_def)

lemma create_im_invalid_dates:
  "present body cid name sd ed \<Longrightarrow> getCar_im s cid = Some car \<Longrightarrow> available car \<Longrightarrow>
   daysInclusive parse sd ed = 0 \<Longrightarrow>
   create_im parse now body s = (s, Inl (ValidationError ''Invalid dates''))"
  by (simp add: present_def create_im_def getCar_im_def)

lemma create_im_success:
  "present body cid name sd ed \<Longrightarrow> getCar_im s cid = Some car \<Longrightarrow> available car \<Longrightarrow>
   daysInclusive parse sd ed \<noteq> 0 \<Longrightarrow>
   create_im parse now body s =
     (s\<lparr>inMemoryRentals := inMemoryRentals s @
            [\<lparr>r_id = newId (inMemoryRentals s), car_id = cid, renter_name = name,
              start_date = sd, end_date = ed,
              total_cost = daily_rate car * daysInclusive parse sd ed,
              status = ''ongoing'', created_at = now, updated_at = now\<rparr>],
         inMemoryCars := update_first (\<lambda>c. c_id c = cid) (\<lambda>c. c\<lparr>available := False\<rparr>)
                           (inMemoryCars s)\<rparr>,
      Inr \<lparr>cr_id = newId (inMemoryRentals s), cr_car_id = cid, cr_renter_name = name,
           cr_start_date = sd, cr_end_date = ed,
           cr_total_cost = daily_rate car * daysInclusive parse sd ed,
           cr_status = Some ''ongoing'', cr_created_at = Some now,
           cr_updated_at = Some now, cr_message = ''Rental created (in-memory)''\<rparr>)"
  by (simp add: present_def create_im_def getCar_im_def Let_def)

lemma create_db_missing:
  "required_missing body \<Longrightarrow>
   create_db parse to_date now body s =
     (s, Inl (ValidationError ''car_id, renter_name, start_date and end_date are required''))"
  by (auto simp: required_missing_def create_db_def split: option.splits)

lemma create_db_not_found:
  "present body cid name sd ed \<Longrightarrow> getCar_db s cid = None \<Longrightarrow>
   create_db parse to_date now body s = (s, Inl (NotFoundError ''Car not found''))"
  by (simp add: present_def create_db_def getCar_db_def split: list.splits)

lemma create_db_unavailable:
  "present body cid name sd ed \<Longrightarrow> getCar_db s cid = Some car \<Longrightarrow> \<not> available car \<Longrightarrow>
   create_db parse to_date now body s
     = (s, Inl (ConflictError ''Car is not available for rental''))"
  by (auto simp: present_def create_db_def getCar_db_def split: list.splits)

lemma create_db_invalid_dates:
  assumes "present body cid name sd ed" "getCar_db s cid = Some car" "available car"
    "daysInclusive parse sd ed = 0"
  shows "create_db parse to_date now body s = (s, Inl (ValidationError ''Invalid dates''))"
  using daysInclusive_zero_cases [OF assms(4)] assms(1-3)
  by (auto simp: present_def create_db_def getCar_db_def split: list.splits option.splits)

text \<open>
  Past its four tests the MySQL branch computes the day count of \<^verbatim>\<open>daysInclusive\<close>, and
  the \<^verbatim>\<open>INSERT\<close> decides.
\<close>

lemma create_db_rejected:
  assumes "present body cid name sd ed" "getCar_db s cid = Some car" "available car"
    "daysInclusive parse sd ed \<noteq> 0"
    "\<not> insert_accepted to_date name sd ed (daily_rate car * daysInclusive parse sd ed)"
  shows "create_db parse to_date now body s = (s, Inl (ServerError ''Failed to create rental''))"
proof -
  obtain a b where p: "getTime parse sd = Some a" "getTime parse ed = Some b" "a \<le> b"
    using daysInclusive_nonzero_cases [OF assms(4)] by blast
  have d: "daysInclusive parse sd ed = ceilDays a b + 1"
    using p by (rule daysInclusive_ordered)
  show ?thesis
    using assms(1-3,5) p d
    by (auto simp: present_def create_db_def getCar_db_def Let_def insert_accepted_def
        split: list.splits option.splits)
qed

lemma create_db_success:
  assumes "present body cid name sd ed" "getCar_db s cid = Some car" "available car"
    "daysInclusive parse sd ed \<noteq> 0"
    "to_date sd = Some start_col" "to_date ed = Some end_col"
    "fits_varchar255 name" "fits_decimal_10_2 (daily_rate car * daysInclusive parse sd ed)"
  shows "create_db parse to_date now body s =
     (s\<lparr>rentals_tbl := rentals_tbl s @
            [\<lparr>r_id = rentals_auto_increment s, car_id = cid, renter_name = name,
              start_date = start_col, end_date = end_col,
              total_cost = daily_rate car * daysInclusive parse sd ed,
              status = ''ongoing'', created_at = now, updated_at = now\<rparr>],
         rentals_auto_increment := rentals_auto_increment s + 1,
         cars_tbl := map (\<lambda>c. if c_id c = cid then c\<lparr>available := False\<rparr> else c)
                       (cars_tbl s)\<rparr>,
      Inr \<lparr>cr_id = rentals_auto_increment s, cr_car_id = cid, cr_renter_name = name,
           cr_start_date = sd, cr_end_date = ed,
           cr_total_cost = daily_rate car * daysInclusive parse sd ed,
           cr_status = None, cr_created_at = None,
           cr_updated_at = None, cr_message = ''Rental created''\<rparr>)"
proof -
  obtain a b where p: "getTime parse sd = Some a" "getTime parse ed = Some b" "a \<le> b"
    using daysInclusive_nonzero_cases [OF assms(4)] by blast
  have d: "daysInclusive parse sd ed = ceilDays a b + 1"
    using p by (rule daysInclusive_ordered)
  show ?thesis
    using assms(1-3,5-8) p d
    by (auto simp: present_def create_db_def getCar_db_def Let_def split: list.splits)
qed

lemma create_db_accepted:
  assumes "present body cid name sd ed" "getCar_db s cid = Some car" "available car"
    "daysInclusive parse sd ed \<noteq> 0"
    "insert_accepted to_date name sd ed (daily_rate car * daysInclusive parse sd ed)"
  shows "\<not> isl (snd (create_db parse to_date now body s))"
proof -
  obtain x y where "to_date sd = Some x" "to_date ed = Some y"
    using assms(5) by (auto simp: insert_accepted_def)
  then show ?thesis
    using create_db_success [OF assms(1-4), where to_date = to_date and now = now] assms(5)
    by (simp add: insert_accepted_def)
qed

lemma find_update_first:
  "find P xs = Some x \<Longrightarrow> P (f x) \<Longrightarrow> find P (update_first P f xs) = Some (f x)"
  by (induction xs) (auto split: if_splits)

lemma find_holds: "find P xs = Some x \<Longrightarrow> P x"
  by (induction xs) (auto split: if_splits)

lemma filter_map_same_key:
  "(\<And>x. P x \<Longrightarrow> P (f x)) \<Longrightarrow>
   filter P (map (\<lambda>x. if P x then f x else x) xs) = map f (filter P xs)"
  by (induction xs) auto

lemma getCar_im_unavailable:
  "getCar_im s cid = Some car \<Longrightarrow>
   getCar_im (s\<lparr>inMemoryRentals := rs,
                inMemoryCars := update_first (\<lambda>c. c_id c = cid) (\<lambda>c. c\<lparr>available := b\<rparr>)
                                  (inMemoryCars s)\<rparr>) cid
     = Some (car\<lparr>available := b\<rparr>)"
  unfolding getCar_im_def
  using find_holds [of "\<lambda>c. c_id c = cid" "inMemoryCars s" car]
  by (simp add: find_update_first)

lemma getCar_db_map:
  assumes "getCar_db s cid = Some car"
  shows "(case filter (\<lambda>c. c_id c = cid)
               (map (\<lambda>c. if c_id c = cid then c\<lparr>available := b\<rparr> else c) (cars_tbl s)) of
            [] \<Rightarrow> None | c # _ \<Rightarrow> Some c) = Some (car\<lparr>available := b\<rparr>)"
proof -
  have "filter (\<lambda>c. c_id c = cid)
          (map (\<lambda>c. if c_id c = cid then c\<lparr>available := b\<rparr> else c) (cars_tbl s))
        = map (\<lambda>c. c\<lparr>available := b\<rparr>) (filter (\<lambda>c. c_id c = cid) (cars_tbl s))"
    by (rule filter_map_same_key) simp
  then show ?thesis
    using assms by (auto simp: getCar_db_def split: list.splits)
qed

text \<open>
  Claim C7. \<^verbatim>\<open>POST /api/rentals\<close> fails with one error, decided in this order: a
  validation error when one of the four fields is missing; else not-found when no car
  has the id; else the conflict ``not available'' when the car's flag is off, whatever
  the dates are; else the validation error ``Invalid dates'' when the day count is 0.
  Both stores decide alike. In every remaining case the request succeeds in memory;
  in MySQL it succeeds when the \<^verbatim>\<open>INSERT\<close> takes the values, and answers the server
  error of the handler's \<^verbatim>\<open>catch\<close> when it does not.
\<close>

theorem create_error_order:
  "(required_missing body \<longrightarrow>
      snd (create_im parse now body s)
        = Inl (ValidationError ''car_id, renter_name, start_date and end_date are required'')
      \<and> snd (create_db parse to_date now body d)
        = Inl (ValidationError ''car_id, renter_name, start_date and end_date are required''))
   \<and> (present body cid name sd ed \<longrightarrow>
        (getCar_im s cid = None \<longrightarrow>
           snd (create_im parse now body s) = Inl (NotFoundError ''Car not found''))
        \<and> (\<forall>car. getCar_im s cid = Some car \<and> \<not> available car \<longrightarrow>
              snd (create_im parse now body s)
                = Inl (ConflictError ''Car is not available for rental''))
        \<and> (\<forall>car. getCar_im s cid = Some car \<and> available car
                \<and> daysInclusive parse sd ed = 0 \<longrightarrow>
              snd (create_im parse now body s) = Inl (ValidationError ''Invalid dates''))
        \<and> (\<forall>car. getCar_im s cid = Some car \<and> available car
                \<and> daysInclusive parse sd ed \<noteq> 0 \<longrightarrow>
              \<not> isl (snd (create_im parse now body s)))
        \<and> (getCar_db d cid = None \<longrightarrow>
           snd (create_db parse to_date now body d) = Inl (NotFoundError ''Car not found''))
        \<and> (\<forall>car. getCar_db d cid = Some car \<and> \<not> available car \<longrightarrow>
              snd (create_db parse to_date now body d)
                = Inl (ConflictError ''Car is not available for rental''))
        \<and> (\<forall>car. getCar_db d cid = Some car \<and> available car
                \<and> daysInclusive parse sd ed = 0 \<longrightarrow>
              snd (create_db parse to_date now body d) = Inl (ValidationError ''Invalid dates''))
        \<and> (\<forall>car. getCar_db d cid = Some car \<and> available car
                \<and> daysInclusive parse sd ed \<noteq> 0
                \<and> insert_accepted to_date name sd ed
                    (daily_rate car * daysInclusive parse sd ed) \<longrightarrow>
              \<not> isl (snd (create_db parse to_date now body d)))
        \<and> (\<forall>car. getCar_db d cid = Some car \<and> available car
                \<and> daysInclusive parse sd ed \<noteq> 0
                \<and> \<not> insert_accepted to_date name sd ed
                    (daily_rate car * daysInclusive parse sd ed) \<longrightarrow>
              snd (create_db parse to_date now body d)
                = Inl (ServerError ''Failed to create rental'')))"
proof (intro conjI impI allI)
  assume m: "required_missing body"
  show "snd (create_im parse now body s)
      = Inl (ValidationError ''car_id, renter_name, start_date and end_date are required'')"
    using m by (simp add: create_im_missing)
  show "snd (create_db parse to_date now body d)
      = Inl (ValidationError ''car_id, renter_name, start_date and end_date are required'')"
    using m by (simp add: create_db_missing)
next
  assume "present body cid name sd ed" "getCar_im s cid = None"
  then show "snd (create_im parse now body s) = Inl (NotFoundError ''Car not found'')"
    by (simp add: create_im_not_found)
next
  fix car
  assume "present body cid name sd ed" "getCar_im s cid = Some car \<and> \<not> available car"
  then show "snd (create_im parse now body s)
      = Inl (ConflictError ''Car is not available for rental'')"
    by (simp add: create_im_unavailable)
next
  fix car
  assume "present body cid name sd ed"
    "getCar_im s cid = Some car \<and> available car \<and> daysInclusive parse sd ed = 0"
  then show "snd (create_im parse now body s) = Inl (ValidationError ''Invalid dates'')"
    by (simp add: create_im_invalid_dates)
next
  fix car
  assume "present body cid name sd ed"
    "getCar_im s cid = Some car \<and> available car \<and> daysInclusive parse sd ed \<noteq> 0"
  then show "\<not> isl (snd (create_im parse now body s))"
    by (simp add: create_im_success)
next
  assume "present body cid name sd ed" "getCar_db d cid = None"
  then show "snd (create_db parse to_date now body d) = Inl (NotFoundError ''Car not found'')"
    by (simp add: create_db_not_found)
next
  fix car
  assume "present body cid name sd ed" "getCar_db d cid = Some car \<and> \<not> available car"
  then show "snd (create_db parse to_date now body d)
      = Inl (ConflictError ''Car is not available for rental'')"
    by (simp add: create_db_unavailable)
next
  fix car
  assume "present body cid name sd ed"
    "getCar_db d cid = Some car \<and> available car \<and> daysInclusive parse sd ed = 0"
  then show "snd (create_db parse to_date now body d) = Inl (ValidationError ''Invalid dates'')"
    by (simp add: create_db_invalid_dates)
next
  fix car
  assume "present body cid name sd ed"
    "getCar_db d cid = Some car \<and> available car \<and> daysInclusive parse sd ed \<noteq> 0
      \<and> insert_accepted to_date name sd ed (daily_rate car * daysInclusive parse sd ed)"
  then show "\<not> isl (snd (create_db parse to_date now body d))"
    using create_db_accepted [where body = body and cid = cid and name = name and sd = sd
        and ed = ed and s = d and car = car and parse = parse and to_date = to_date
        and now = now]
    by blast
next
  fix car
  assume "present body cid name sd ed"
    "getCar_db d cid = Some car \<and> available car \<and> daysInclusive parse sd ed \<noteq> 0
      \<and> \<not> insert_accepted to_date name sd ed (daily_rate car * daysInclusive parse sd ed)"
  then show "snd (create_db parse to_date now body d)
      = Inl (ServerError ''Failed to create rental'')"
    using create_db_rejected [where body = body and cid = cid and name = name and sd = sd
        and ed = ed and s = d and car = car and parse = parse and to_date = to_date
        and now = now]
    by simp
qed

subsection \<open>The requests of the tests\<close>

lemma only_car_id_missing: "required_missing only_car_id"
  by (simp add: required_missing_def only_car_id_def truthy_str_def)

lemma reversed_present: "present reversed 1 ''Carol'' ''2025-01-05'' ''2025-01-01''"
  by (simp add: present_def reversed_def truthy_num_def truthy_str_def)

lemma unknown_car_present: "present unknown_car 999 ''Alice'' ''2025-01-01'' ''2025-01-03''"
  by (simp add: present_def unknown_car_def truthy_num_def truthy_str_def)

lemma alice_present: "present alice 1 ''Alice'' ''2025-01-01'' ''2025-01-03''"
  by (simp add: present_def alice_def truthy_num_def truthy_str_def)

lemma days_alice: "daysInclusive isoDate ''2025-01-01'' ''2025-01-03'' = 3"
  by code_simp

lemma days_reversed: "daysInclusive isoDate ''2025-01-05'' ''2025-01-01'' = 0"
  by code_simp

lemma alice_dates:
  "isoDate ''2025-01-01'' = Some 1735689600000"
  "isoDate ''2025-01-03'' = Some 1735862400000"
  by code_simp+

lemma alice_accepted:
  "insert_accepted isoDate ''Alice'' ''2025-01-01'' ''2025-01-03'' 10500"
  by (simp add: insert_accepted_def alice_dates fits_varchar255_def fits_decimal_10_2_def)

lemma seeded_cars:
  "getCar_im (initDB_im 0) 1 = Some (toyota True)"
  "getCar_db (initDB_db 0) 1 = Some (toyota True)"
  "getCar_im (initDB_im 0) 999 = None"
  "getCar_db (initDB_db 0) 999 = None"
  by (simp_all add: getCar_im_def getCar_db_def initDB_im_def initDB_db_def sampleCars_def
      toyota_def)

lemma rented_cars:
  "getCar_im rented_im 1 = Some (toyota False)"
  "getCar_db rented_db 1 = Some (toyota False)"
  by code_simp+

theorem create_error_order_witness:
  "snd (create_im isoDate 2 only_car_id (initDB_im 0))
     = Inl (ValidationError ''car_id, renter_name, start_date and end_date are required'')
   \<and> snd (create_db isoDate isoDate 2 only_car_id (initDB_db 0))
     = Inl (ValidationError ''car_id, renter_name, start_date and end_date are required'')
   \<and> snd (create_im isoDate 2 unknown_car (initDB_im 0)) = Inl (NotFoundError ''Car not found'')
   \<and> snd (create_db isoDate isoDate 2 unknown_car (initDB_db 0))
     = Inl (NotFoundError ''Car not found'')
   \<and> snd (create_im isoDate 2 reversed rented_im)
     = Inl (ConflictError ''Car is not available for rental'')
   \<and> snd (create_db isoDate isoDate 2 reversed rented_db)
     = Inl (ConflictError ''Car is not available for rental'')
   \<and> snd (create_im isoDate 2 reversed (initDB_im 0)) = Inl (ValidationError ''Invalid dates'')
   \<and> snd (create_db isoDate isoDate 2 reversed (initDB_db 0))
     = Inl (ValidationError ''Invalid dates'')
   \<and> \<not> isl (snd (create_im isoDate 2 alice (initDB_im 0)))
   \<and> \<not> isl (snd (create_db isoDate isoDate 2 alice (initDB_db 0)))
   \<and> snd (create_db isoDate (\<lambda>s. None) 2 alice (initDB_db 0))
     = Inl (ServerError ''Failed to create rental'')"
  using create_error_order [where body = only_car_id and parse = isoDate and now = 2
        and to_date = isoDate and s = "initDB_im 0" and d = "initDB_db 0"]
    create_error_order [where body = unknown_car and cid = 999 and name = "''Alice''"
        and sd = "''2025-01-01''" and ed = "''2025-01-03''" and parse = isoDate and now = 2
        and to_date = isoDate and s = "initDB_im 0" and d = "initDB_db 0"]
    create_error_order [where body = reversed and cid = 1 and name = "''Carol''"
        and sd = "''2025-01-05''" and ed = "''2025-01-01''" and parse = isoDate and now = 2
        and to_date = isoDate and s = rented_im and d = rented_db]
    create_error_order [where body = reversed and cid = 1 and name = "''Carol''"
        and sd = "''2025-01-05''" and ed = "''2025-01-01''" and parse = isoDate and now = 2
        and to_date = isoDate and s = "initDB_im 0" and d = "initDB_db 0"]
    create_error_order [where body = alice and cid = 1 and name = "''Alice''"
        and sd = "''2025-01-01''" and ed = "''2025-01-03''" and parse = isoDate and now = 2
        and to_date = isoDate and s = "initDB_im 0" and d = "initDB_db 0"]
    create_error_order [where body = alice and cid = 1 and name = "''Alice''"
        and sd = "''2025-01-01''" and ed = "''2025-01-03''" and parse = isoDate and now = 2
        and to_date = "\<lambda>s. None" and s = "initDB_im 0" and d = "initDB_db 0"]
    only_car_id_missing unknown_car_present reversed_present alice_present
    seeded_cars rented_cars days_alice days_reversed alice_accepted
  by (simp add: toyota_def insert_accepted_def)

subsection \<open>A successful request\<close>

text \<open>
  What holds of a successful \<^verbatim>\<open>POST /api/rentals\<close> on either store: the \<^verbatim>\<open>total_cost\<close>
  of the answer is the car's daily rate times the day count; the store has one more
  rental, which carries the answer's id, that cost and the status \<^verbatim>\<open>ongoing\<close>; and the
  car's flag is off afterwards.
\<close>

lemma create_im_effect:
  assumes "present body cid name sd ed" "getCar_im s cid = Some car" "available car"
    "0 < daysInclusive parse sd ed"
  shows "\<exists>s' rep r c'.
         create_im parse now body s = (s', Inr rep)
         \<and> cr_total_cost rep = daily_rate car * daysInclusive parse sd ed
         \<and> cr_status rep = Some ''ongoing''
         \<and> inMemoryRentals s' = inMemoryRentals s @ [r]
         \<and> r_id r = cr_id rep \<and> car_id r = cid \<and> total_cost r = cr_total_cost rep
         \<and> status r = ''ongoing''
         \<and> getCar_im s' cid = Some c' \<and> \<not> available c'"
proof -
  have "daysInclusive parse sd ed \<noteq> 0"
    using assms(4) by simp
  from create_im_success [OF assms(1-3) this, where now = now]
  show ?thesis
    using getCar_im_unavailable [OF assms(2), where b = False] by simp
qed

lemma create_db_effect:
  assumes "present body cid name sd ed" "getCar_db d cid = Some car" "available car"
    "0 < daysInclusive parse sd ed"
    "insert_accepted to_date name sd ed (daily_rate car * daysInclusive parse sd ed)"
  shows "\<exists>d' rep r c'.
         create_db parse to_date now body d = (d', Inr rep)
         \<and> cr_total_cost rep = daily_rate car * daysInclusive parse sd ed
         \<and> cr_status rep = None
         \<and> rentals_tbl d' = rentals_tbl d @ [r]
         \<and> r_id r = cr_id rep \<and> car_id r = cid \<and> total_cost r = cr_total_cost rep
         \<and> status r = ''ongoing''
         \<and> getCar_db d' cid = Some c' \<and> \<not> available c'"
proof -
  have n: "daysInclusive parse sd ed \<noteq> 0"
    using assms(4) by simp
  obtain x y where c: "to_date sd = Some x" "to_date ed = Some y"
    using assms(5) by (auto simp: insert_accepted_def)
  have f: "fits_varchar255 name"
    "fits_decimal_10_2 (daily_rate car * daysInclusive parse sd ed)"
    using assms(5) by (simp_all add: insert_accepted_def)
  from create_db_success [OF assms(1-3) n c f, where now = now]
  show ?thesis
    using getCar_db_map [OF assms(2), where b = False] by (simp add: getCar_db_def)
qed

text \<open>
  Claim C1. The returned rental does not have the status \<^verbatim>\<open>ongoing\<close> on the MySQL store:
  the answer to Alice's request, the first of the tests, on the seeded store has no
  status at all, where the in-memory branch of the same handler answers \<^verbatim>\<open>ongoing\<close> to
  the same request. The cost of both answers is three days at 35.00.
\<close>

theorem create_db_reply_without_status:
  "snd (create_db isoDate isoDate 1 alice (initDB_db 0))
     = Inr \<lparr>cr_id = 1, cr_car_id = 1, cr_renter_name = ''Alice'',
            cr_start_date = ''2025-01-01'', cr_end_date = ''2025-01-03'',
            cr_total_cost = 10500, cr_status = None, cr_created_at = None,
            cr_updated_at = None, cr_message = ''Rental created''\<rparr>
   \<and> snd (create_im isoDate 1 alice (initDB_im 0))
     = Inr \<lparr>cr_id = 1, cr_car_id = 1, cr_renter_name = ''Alice'',
            cr_start_date = ''2025-01-01'', cr_end_date = ''2025-01-03'',
            cr_total_cost = 10500, cr_status = Some ''ongoing'', cr_created_at = Some 1,
            cr_updated_at = Some 1, cr_message = ''Rental created (in-memory)''\<rparr>"
  by code_simp

section \<open>The paths of the \<^verbatim>\<open>PUT\<close> and \<^verbatim>\<open>DELETE\<close> handlers\<close>

lemma truthy_str_Some: "truthy_str v = Some x \<longleftrightarrow> v = Some x \<and> x \<noteq> []"
  by (auto simp: truthy_str_def split: option.splits)

lemma truthy_str_set_status [simp]:
  "truthy_str (u_end_date (set_status st)) = None"
  "truthy_str (u_status (set_status st)) = (if st = [] then None else Some st)"
  by (simp_all add: set_status_def truthy_str_def)

lemma getRental_db_find: "getRental_db d i = find (\<lambda>r. r_id r = i) (rentals_tbl d)"
  by (simp add: getRental_db_def find_filter_conv)

lemma getCar_db_find: "getCar_db d cid = find (\<lambda>c. c_id c = cid) (cars_tbl d)"
  by (simp add: getCar_db_def find_filter_conv)


subsection \<open>In memory\<close>

lemma update_im_not_found:
  "getRental_im s i = None \<Longrightarrow>
   update_im parse now i body s = (s, Inl (NotFoundError ''Rental not found''))"
  by (simp add: update_im_def getRental_im_def)

lemma update_im_invalid_end_date:
  "getRental_im s i = Some r \<Longrightarrow> truthy_str (u_end_date body) = Some ed \<Longrightarrow>
   daysInclusive parse (start_date r) ed = 0 \<Longrightarrow>
   update_im parse now i body s = (s, Inl (ValidationError ''Invalid end_date''))"
  by (simp add: update_im_def getRental_im_def Let_def)

lemma update_im_failure:
  "isl (snd (update_im parse now i body s)) \<Longrightarrow> fst (update_im parse now i body s) = s"
  by (auto simp: update_im_def Let_def split: option.splits sum.splits prod.splits if_splits)

lemma update_im_cars:
  assumes "getRental_im s i = Some r" "update_im parse now i body s = (s', Inr rep)"
  shows "inMemoryCars s' =
           (if u_status body = Some ''returned''
            then update_first (\<lambda>c. c_id c = car_id r) (\<lambda>c. c\<lparr>available := True\<rparr>)
                   (inMemoryCars s)
            else inMemoryCars s)"
  using assms
  by (auto simp: update_im_def getRental_im_def Let_def truthy_str_def
      split: option.splits sum.splits if_splits)


lemma update_im_status_only:
  "getRental_im s i = Some r \<Longrightarrow> \<not> isl (snd (update_im parse now i (set_status st) s))"
  by (auto simp: update_im_def getRental_im_def Let_def split: option.splits)

lemma delete_im_not_found:
  "getRental_im s i = None \<Longrightarrow> delete_im i s = (s, Inl (NotFoundError ''Rental not found''))"
  by (simp add: delete_im_def getRental_im_def)

lemma splice_first_split:
  "find P xs = Some x \<Longrightarrow>
   \<exists>ys zs. xs = ys @ x # zs \<and> splice_first P xs = ys @ zs \<and> \<not> (\<exists>y \<in> set ys. P y)"
proof (induction xs)
  case Nil
  then show ?case by simp
next
  case (Cons a xs)
  show ?case
  proof (cases "P a")
    case True
    then have "a # xs = [] @ x # xs \<and> splice_first P (a # xs) = [] @ xs" using Cons.prems by simp
    then show ?thesis by (metis empty_iff list.set(1))
  next
    case False
    then obtain ys zs where "xs = ys @ x # zs" "splice_first P xs = ys @ zs" "\<not> (\<exists>y \<in> set ys. P y)"
      using Cons by auto
    then have "a # xs = (a # ys) @ x # zs \<and> splice_first P (a # xs) = (a # ys) @ zs
        \<and> \<not> (\<exists>y \<in> set (a # ys). P y)"
      using False by simp
    then show ?thesis by blast
  qed
qed

lemma delete_im_found:
  assumes "getRental_im s i = Some r"
  shows "\<exists>ys zs. delete_im i s = (s\<lparr>inMemoryRentals := ys @ zs\<rparr>, Inr ''Rental deleted (in-memory)'')
           \<and> inMemoryRentals s = ys @ r # zs \<and> i \<notin> r_id ` set ys"
proof -
  obtain ys zs where "inMemoryRentals s = ys @ r # zs"
    "splice_first (\<lambda>r. r_id r = i) (inMemoryRentals s) = ys @ zs"
    "\<not> (\<exists>y \<in> set ys. r_id y = i)"
    using splice_first_split [of "\<lambda>r. r_id r = i" "inMemoryRentals s" r] assms
    by (auto simp: getRental_im_def)
  then show ?thesis
    using assms by (auto simp: delete_im_def getRental_im_def)
qed

lemma delete_im_cars: "inMemoryCars (fst (delete_im i s)) = inMemoryCars s"
  by (simp add: delete_im_def split: option.splits)

lemma delete_im_failure: "isl (snd (delete_im i s)) \<Longrightarrow> fst (delete_im i s) = s"
  by (simp add: delete_im_def split: option.splits)

subsection \<open>In MySQL\<close>

lemma update_db_not_found:
  "getRental_db d i = None \<Longrightarrow>
   update_db parse to_date now i body d = (d, Inl (NotFoundError ''Rental not found''))"
  by (simp add: update_db_def getRental_db_def split: list.splits)

lemma update_db_error:
  "update_db parse to_date now i body d = (d', Inl e) \<Longrightarrow> d' = d"
  by (auto simp: update_db_def Let_def
      split: option.splits sum.splits list.splits prod.splits if_splits)

lemma update_db_failure:
  "isl (snd (update_db parse to_date now i body d)) \<Longrightarrow>
   fst (update_db parse to_date now i body d) = d"
  using update_db_error [of parse to_date now i body d]
  by (cases "update_db parse to_date now i body d") (auto simp: isl_def)

lemma update_db_cars:
  assumes "getRental_db d i = Some r" "update_db parse to_date now i body d = (d', Inr rep)"
  shows "cars_tbl d' =
           (if u_status body = Some ''returned''
            then map (\<lambda>c. if c_id c = car_id r then c\<lparr>available := True\<rparr> else c) (cars_tbl d)
            else cars_tbl d)"
  using assms
  by (auto simp: update_db_def getRental_db_def Let_def
      split: option.splits sum.splits list.splits prod.splits if_splits)

lemma update_db_rentals:
  assumes "getRental_db d i = Some r" "update_db parse to_date now i body d = (d', Inr rep)"
  shows "\<exists>new_end. rentals_tbl d' =
           map (\<lambda>x. if r_id x = i
                     then (let x' = x\<lparr>end_date := new_end,
                                       total_cost := ur_total_cost rep,
                                       status := ur_status rep\<rparr>
                           in if x' = x then x else x'\<lparr>updated_at := now\<rparr>)
                     else x) (rentals_tbl d)"
    and "ur_status rep = (case truthy_str (u_status body) of None \<Rightarrow> status r | Some st \<Rightarrow> st)"
    and "ur_end_date rep
           = (case truthy_str (u_end_date body) of None \<Rightarrow> Stored (end_date r)
              | Some ed \<Rightarrow> Sent ed)"
    and "ur_id rep = decimal i"
  using assms
  by (auto simp: update_db_def getRental_db_def Let_def
      split: option.splits sum.splits list.splits prod.splits if_splits)



lemma update_db_status_only:
  "getRental_db d i = Some r \<Longrightarrow> valid_status st \<Longrightarrow>
   \<not> isl (snd (update_db parse to_date now i (set_status st) d))"
  by (auto simp: update_db_def getRental_db_def Let_def valid_status_def split: list.splits)

lemma delete_db_not_found:
  "getRental_db d i = None \<Longrightarrow> delete_db i d = (d, Inl (NotFoundError ''Rental not found''))"
  by (simp add: delete_db_def getRental_db_def split: list.splits)

lemma delete_db_found:
  "getRental_db d i = Some r \<Longrightarrow>
   delete_db i d = (d\<lparr>rentals_tbl := filter (\<lambda>r. r_id r \<noteq> i) (rentals_tbl d)\<rparr>,
                    Inr ''Rental deleted'')"
  by (auto simp: delete_db_def getRental_db_def split: list.splits)

lemma delete_db_cars: "cars_tbl (fst (delete_db i d)) = cars_tbl d"
  by (simp add: delete_db_def Let_def)

lemma delete_db_failure: "isl (snd (delete_db i d)) \<Longrightarrow> fst (delete_db i d) = d"
  by (simp add: delete_db_def Let_def split: if_splits)

lemma create_im_failure:
  "isl (snd (create_im parse now body s)) \<Longrightarrow> fst (create_im parse now body s) = s"
  by (auto simp: create_im_def Let_def split: option.splits if_splits)

lemma create_db_failure:
  "isl (snd (create_db parse to_date now body d)) \<Longrightarrow>
   fst (create_db parse to_date now body d) = d"
  by (auto simp: create_db_def Let_def split: option.splits list.splits if_splits)

section \<open>Status changes and the car's flag\<close>

lemma set_status_fields [simp]:
  "u_status (set_status st) = Some st" "u_end_date (set_status st) = None"
  by (simp_all add: set_status_def)

text \<open>
  Claim C3. An update that marks an existing rental \<^verbatim>\<open>returned\<close> leaves the referenced
  car with its flag on; an update that marks it \<^verbatim>\<open>cancelled\<close> leaves every car as it
  was. An update that carries only one of these two statuses succeeds on an existing
  rental. This holds on both stores.
\<close>

theorem update_status_availability:
  "(getRental_im s i = Some r \<and> update_im parse now i body s = (s', Inr rep) \<longrightarrow>
      (u_status body = Some ''returned'' \<longrightarrow>
         (\<forall>c. getCar_im s (car_id r) = Some c \<longrightarrow>
              getCar_im s' (car_id r) = Some (c\<lparr>available := True\<rparr>)))
      \<and> (u_status body = Some ''cancelled'' \<longrightarrow> inMemoryCars s' = inMemoryCars s))
   \<and> (getRental_im s i = Some r \<and> (st = ''returned'' \<or> st = ''cancelled'') \<longrightarrow>
        \<not> isl (snd (update_im parse now i (set_status st) s)))
   \<and> (getRental_db d i = Some row
        \<and> update_db parse to_date now i body d = (d', Inr rep_db) \<longrightarrow>
      (u_status body = Some ''returned'' \<longrightarrow>
         (\<forall>c. getCar_db d (car_id row) = Some c \<longrightarrow>
              getCar_db d' (car_id row) = Some (c\<lparr>available := True\<rparr>)))
      \<and> (u_status body = Some ''cancelled'' \<longrightarrow> cars_tbl d' = cars_tbl d))
   \<and> (getRental_db d i = Some row \<and> (st = ''returned'' \<or> st = ''cancelled'') \<longrightarrow>
        \<not> isl (snd (update_db parse to_date now i (set_status st) d)))"
proof (intro conjI impI allI)
  fix c
  assume a: "getRental_im s i = Some r \<and> update_im parse now i body s = (s', Inr rep)"
    and b: "u_status body = Some ''returned''" and c: "getCar_im s (car_id r) = Some c"
  have "inMemoryCars s' = update_first (\<lambda>c. c_id c = car_id r) (\<lambda>c. c\<lparr>available := True\<rparr>)
      (inMemoryCars s)"
    using update_im_cars [of s i r parse now body s' rep] a b by simp
  moreover have "c_id c = car_id r"
    using c find_holds [of "\<lambda>c. c_id c = car_id r"] by (simp add: getCar_im_def)
  ultimately show "getCar_im s' (car_id r) = Some (c\<lparr>available := True\<rparr>)"
    using c by (simp add: getCar_im_def find_update_first)
next
  assume "getRental_im s i = Some r \<and> update_im parse now i body s = (s', Inr rep)"
    "u_status body = Some ''cancelled''"
  then show "inMemoryCars s' = inMemoryCars s"
    using update_im_cars [of s i r parse now body s' rep] by simp
next
  assume "getRental_im s i = Some r \<and> (st = ''returned'' \<or> st = ''cancelled'')"
  then show "\<not> isl (snd (update_im parse now i (set_status st) s))"
    by (simp add: update_im_status_only)
next
  fix c
  assume a: "getRental_db d i = Some row
      \<and> update_db parse to_date now i body d = (d', Inr rep_db)"
    and b: "u_status body = Some ''returned''" and c: "getCar_db d (car_id row) = Some c"
  have "cars_tbl d' = map (\<lambda>c. if c_id c = car_id row then c\<lparr>available := True\<rparr> else c)
      (cars_tbl d)"
    using update_db_cars [of d i row parse to_date now body d' rep_db] a b by simp
  then show "getCar_db d' (car_id row) = Some (c\<lparr>available := True\<rparr>)"
    using getCar_db_map [OF c, where b = True] by (simp add: getCar_db_def)
next
  assume "getRental_db d i = Some row
      \<and> update_db parse to_date now i body d = (d', Inr rep_db)"
    "u_status body = Some ''cancelled''"
  then show "cars_tbl d' = cars_tbl d"
    using update_db_cars [of d i row parse to_date now body d' rep_db] by simp
next
  assume "getRental_db d i = Some row \<and> (st = ''returned'' \<or> st = ''cancelled'')"
  then show "\<not> isl (snd (update_db parse to_date now i (set_status st) d))"
    by (auto simp: update_db_status_only valid_status_def)
qed

lemma rented_rentals:
  "getRental_im rented_im 1 = Some (alice_rental ''ongoing'' 1)"
  "getRental_db rented_db 1 = Some (alice_row ''ongoing'' 1)"
  by code_simp+

lemma returned_run:
  "update_im isoDate 2 1 (set_status ''returned'') rented_im
     = (returned_im, Inr (alice_reply_im ''returned''))"
  "update_db isoDate isoDate 2 1 (set_status ''returned'') rented_db
     = (returned_db, Inr (alice_reply_db ''returned''))"
  unfolding returned_im_def returned_db_def by code_simp+

lemma cancelled_run:
  "update_im isoDate 2 1 (set_status ''cancelled'') rented_im
     = (cancelled_im, Inr (alice_reply_im ''cancelled''))"
  "update_db isoDate isoDate 2 1 (set_status ''cancelled'') rented_db
     = (cancelled_db, Inr (alice_reply_db ''cancelled''))"
  unfolding cancelled_im_def cancelled_db_def by code_simp+

theorem update_status_availability_witness:
  "getCar_im rented_im 1 = Some (toyota False) \<and> getCar_im returned_im 1 = Some (toyota True)
   \<and> inMemoryCars cancelled_im = inMemoryCars rented_im
   \<and> \<not> isl (snd (update_im isoDate 2 1 (set_status ''returned'') rented_im))
   \<and> getCar_db rented_db 1 = Some (toyota False) \<and> getCar_db returned_db 1 = Some (toyota True)
   \<and> cars_tbl cancelled_db = cars_tbl rented_db
   \<and> \<not> isl (snd (update_db isoDate isoDate 2 1 (set_status ''cancelled'') rented_db))"
proof -
  have c: "car_id (alice_rental ''ongoing'' 1) = 1" "car_id (alice_row ''ongoing'' 1) = 1"
    "toyota False\<lparr>available := True\<rparr> = toyota True"
    by (simp_all add: alice_rental_def alice_row_def toyota_def)
  show ?thesis
    using update_status_availability [where s = rented_im and i = 1
        and r = "alice_rental ''ongoing'' 1" and parse = isoDate and now = 2
        and body = "set_status ''returned''" and s' = returned_im
        and rep = "alice_reply_im ''returned''"
        and st = "''returned''" and d = rented_db and d' = returned_db
        and row = "alice_row ''ongoing'' 1" and to_date = isoDate
        and rep_db = "alice_reply_db ''returned''"]
      update_status_availability [where s = rented_im and i = 1
        and r = "alice_rental ''ongoing'' 1" and parse = isoDate and now = 2
        and body = "set_status ''cancelled''" and s' = cancelled_im
        and rep = "alice_reply_im ''cancelled''"
        and st = "''cancelled''" and d = rented_db and d' = cancelled_db
        and row = "alice_row ''ongoing'' 1" and to_date = isoDate
        and rep_db = "alice_reply_db ''cancelled''"]
      rented_rentals rented_cars returned_run cancelled_run c
    by simp
qed

section \<open>The status of a rental is not a state machine\<close>






section \<open>Deleting a rental\<close>

lemma find_append_distinct:
  "distinct (map f (ys @ x # zs)) \<Longrightarrow> find (\<lambda>y. f y = f x) (ys @ zs) = None"
  by (induction ys) (auto simp: find_None_iff image_iff)

lemma singleton_split: "[a] = ys @ b # zs \<Longrightarrow> ys = [] \<and> zs = []"
  by (cases ys) auto

text \<open>
  Claim C8. \<^verbatim>\<open>DELETE /api/rentals/:id\<close> answers not-found, and changes nothing, when no
  rental has the id. Otherwise it succeeds: the in-memory store drops the first rental
  with the id, which is the only one when ids are distinct, and MySQL drops every row
  with the id. In every case the cars, and so their flags, are what they were.
\<close>

theorem delete_frame:
  "(getRental_im s i = None \<longrightarrow>
      delete_im i s = (s, Inl (NotFoundError ''Rental not found'')))
   \<and> (\<forall>r. getRental_im s i = Some r \<longrightarrow>
        (\<exists>s' m ys zs. delete_im i s = (s', Inr m)
           \<and> inMemoryRentals s = ys @ r # zs \<and> inMemoryRentals s' = ys @ zs
           \<and> r_id r = i \<and> i \<notin> r_id ` set ys
           \<and> (distinct (map r_id (inMemoryRentals s)) \<longrightarrow> getRental_im s' i = None)))
   \<and> inMemoryCars (fst (delete_im i s)) = inMemoryCars s
   \<and> (getRental_db d i = None \<longrightarrow>
      delete_db i d = (d, Inl (NotFoundError ''Rental not found'')))
   \<and> (\<forall>r. getRental_db d i = Some r \<longrightarrow>
        (\<exists>d' m. delete_db i d = (d', Inr m)
           \<and> set (rentals_tbl d') = {x \<in> set (rentals_tbl d). r_id x \<noteq> i}
           \<and> length (rentals_tbl d') < length (rentals_tbl d)
           \<and> getRental_db d' i = None))
   \<and> cars_tbl (fst (delete_db i d)) = cars_tbl d"
proof (intro conjI impI allI)
  show "delete_im i s = (s, Inl (NotFoundError ''Rental not found''))"
    if "getRental_im s i = None"
    using that by (rule delete_im_not_found)
  show "delete_db i d = (d, Inl (NotFoundError ''Rental not found''))"
    if "getRental_db d i = None"
    using that by (rule delete_db_not_found)
  show "inMemoryCars (fst (delete_im i s)) = inMemoryCars s"
    by (rule delete_im_cars)
  show "cars_tbl (fst (delete_db i d)) = cars_tbl d"
    by (rule delete_db_cars)
next
  fix r
  assume g: "getRental_im s i = Some r"
  then obtain ys zs where
    del: "delete_im i s = (s\<lparr>inMemoryRentals := ys @ zs\<rparr>, Inr ''Rental deleted (in-memory)'')"
    and split: "inMemoryRentals s = ys @ r # zs" and ys: "i \<notin> r_id ` set ys"
    using delete_im_found by blast
  have i: "r_id r = i"
    using g find_holds [of "\<lambda>r. r_id r = i"] by (simp add: getRental_im_def)
  have "getRental_im (s\<lparr>inMemoryRentals := ys @ zs\<rparr>) i = None"
    if "distinct (map r_id (inMemoryRentals s))"
    using that find_append_distinct [of r_id ys r zs] i split by (simp add: getRental_im_def)
  then show "\<exists>s' m ys zs. delete_im i s = (s', Inr m)
           \<and> inMemoryRentals s = ys @ r # zs \<and> inMemoryRentals s' = ys @ zs
           \<and> r_id r = i \<and> i \<notin> r_id ` set ys
           \<and> (distinct (map r_id (inMemoryRentals s)) \<longrightarrow> getRental_im s' i = None)"
    using del split ys i by (intro exI [of _ "s\<lparr>inMemoryRentals := ys @ zs\<rparr>"] exI [of _ ys] exI [of _ zs] exI) simp
next
  fix r
  assume g: "getRental_db d i = Some r"
  have m: "r \<in> set (rentals_tbl d)" "r_id r = i"
    using g find_Some_iff [of "\<lambda>r. r_id r = i" "rentals_tbl d" r]
    by (auto simp: getRental_db_find)
  have "length (filter (\<lambda>r. r_id r \<noteq> i) (rentals_tbl d)) < length (rentals_tbl d)"
    using m by (intro length_filter_less [of r]) auto
  moreover have "getRental_db (d\<lparr>rentals_tbl := filter (\<lambda>r. r_id r \<noteq> i) (rentals_tbl d)\<rparr>) i = None"
    by (simp add: getRental_db_def)
  ultimately show "\<exists>d' m. delete_db i d = (d', Inr m)
           \<and> set (rentals_tbl d') = {x \<in> set (rentals_tbl d). r_id x \<noteq> i}
           \<and> length (rentals_tbl d') < length (rentals_tbl d)
           \<and> getRental_db d' i = None"
    using delete_db_found [OF g] by simp
qed

theorem delete_frame_witness:
  "delete_im 999 returned_im = (returned_im, Inl (NotFoundError ''Rental not found''))
   \<and> (\<exists>s' m. delete_im 1 rented_im = (s', Inr m) \<and> inMemoryRentals s' = []
         \<and> getRental_im s' 1 = None)
   \<and> inMemoryCars (fst (delete_im 1 rented_im)) = inMemoryCars rented_im
   \<and> delete_db 999 returned_db = (returned_db, Inl (NotFoundError ''Rental not found''))
   \<and> (\<exists>d' m. delete_db 1 rented_db = (d', Inr m) \<and> set (rentals_tbl d') = {}
         \<and> getRental_db d' 1 = None)
   \<and> cars_tbl (fst (delete_db 1 rented_db)) = cars_tbl rented_db"
proof -
  have n: "getRental_im returned_im 999 = None" "getRental_db returned_db 999 = None"
    by code_simp+
  have l: "inMemoryRentals rented_im = [alice_rental ''ongoing'' 1]"
    "rentals_tbl rented_db = [alice_row ''ongoing'' 1]"
    by code_simp+
  have i: "r_id (alice_rental ''ongoing'' 1) = 1" "r_id (alice_row ''ongoing'' 1) = 1"
    by (simp_all add: alice_rental_def alice_row_def)
  show ?thesis
    using delete_frame [where s = returned_im and i = 999 and d = returned_db]
      delete_frame [where s = rented_im and i = 1 and d = rented_db]
      n l i rented_rentals
    by (auto dest: singleton_split)
qed

section \<open>Failing requests change nothing\<close>

lemma update_db_invalid_end_date:
  assumes "getRental_db d i = Some r" "truthy_str (u_end_date body) = Some ed"
    "getTime parse ed = None \<or> (\<exists>e. getTime parse ed = Some e \<and> e < start_date r)"
  shows "update_db parse to_date now i body d = (d, Inl (ValidationError ''Invalid end_date''))"
  using assms
  by (auto simp: update_db_def getRental_db_def Let_def split: list.splits option.splits)

text \<open>
  Claim C10. Whenever a handler of either store answers an error, the store it leaves
  is the store it found: cars and rentals are untouched. The errors of the claim are
  among these: \<^verbatim>\<open>POST\<close> with a missing field, an unknown car, an unavailable car or
  invalid dates; \<^verbatim>\<open>PUT\<close> on an unknown rental or with an invalid end date; \<^verbatim>\<open>DELETE\<close>
  on an unknown rental. An end date is invalid in memory when the day count from the
  rental's start is 0, and in MySQL, where the start is the date of the row, when it
  does not parse or lies before that date.
\<close>

theorem failures_change_nothing:
  "(isl (snd (create_im parse now body s)) \<longrightarrow> fst (create_im parse now body s) = s)
   \<and> (isl (snd (create_db parse to_date now body d)) \<longrightarrow> fst (create_db parse to_date now body d) = d)
   \<and> (isl (snd (update_im parse now i ubody s)) \<longrightarrow> fst (update_im parse now i ubody s) = s)
   \<and> (isl (snd (update_db parse to_date now i ubody d)) \<longrightarrow> fst (update_db parse to_date now i ubody d) = d)
   \<and> (isl (snd (delete_im i s)) \<longrightarrow> fst (delete_im i s) = s)
   \<and> (isl (snd (delete_db i d)) \<longrightarrow> fst (delete_db i d) = d)
   \<and> (required_missing body \<longrightarrow>
        isl (snd (create_im parse now body s)) \<and> isl (snd (create_db parse to_date now body d)))
   \<and> (present body cid name sd ed \<and> getCar_im s cid = None \<longrightarrow>
        isl (snd (create_im parse now body s)))
   \<and> (present body cid name sd ed \<and> getCar_db d cid = None \<longrightarrow>
        isl (snd (create_db parse to_date now body d)))
   \<and> (\<forall>car. present body cid name sd ed \<and> getCar_im s cid = Some car
          \<and> (\<not> available car \<or> daysInclusive parse sd ed = 0) \<longrightarrow>
        isl (snd (create_im parse now body s)))
   \<and> (\<forall>car. present body cid name sd ed \<and> getCar_db d cid = Some car
          \<and> (\<not> available car \<or> daysInclusive parse sd ed = 0) \<longrightarrow>
        isl (snd (create_db parse to_date now body d)))
   \<and> (getRental_im s i = None \<longrightarrow>
        isl (snd (update_im parse now i ubody s)) \<and> isl (snd (delete_im i s)))
   \<and> (getRental_db d i = None \<longrightarrow>
        isl (snd (update_db parse to_date now i ubody d)) \<and> isl (snd (delete_db i d)))
   \<and> (\<forall>r ed. getRental_im s i = Some r \<and> truthy_str (u_end_date ubody) = Some ed
          \<and> daysInclusive parse (start_date r) ed = 0 \<longrightarrow>
        isl (snd (update_im parse now i ubody s)))
   \<and> (\<forall>r ed. getRental_db d i = Some r \<and> truthy_str (u_end_date ubody) = Some ed
          \<and> (getTime parse ed = None
             \<or> (\<exists>e. getTime parse ed = Some e \<and> e < start_date r)) \<longrightarrow>
        isl (snd (update_db parse to_date now i ubody d)))"
proof (intro conjI impI allI)
  show "fst (create_im parse now body s) = s" if "isl (snd (create_im parse now body s))"
    using that by (rule create_im_failure)
  show "fst (create_db parse to_date now body d) = d" if "isl (snd (create_db parse to_date now body d))"
    using that by (rule create_db_failure)
  show "fst (update_im parse now i ubody s) = s" if "isl (snd (update_im parse now i ubody s))"
    using that by (rule update_im_failure)
  show "fst (update_db parse to_date now i ubody d) = d" if "isl (snd (update_db parse to_date now i ubody d))"
    using that by (rule update_db_failure)
  show "fst (delete_im i s) = s" if "isl (snd (delete_im i s))"
    using that by (rule delete_im_failure)
  show "fst (delete_db i d) = d" if "isl (snd (delete_db i d))"
    using that by (rule delete_db_failure)
  show "isl (snd (create_im parse now body s))" if "required_missing body"
    using that by (simp add: create_im_missing)
  show "isl (snd (create_db parse to_date now body d))" if "required_missing body"
    using that by (simp add: create_db_missing)
  show "isl (snd (create_im parse now body s))"
    if "present body cid name sd ed \<and> getCar_im s cid = None"
    using that create_im_not_found [of body cid name sd ed s parse now] by simp
  show "isl (snd (create_db parse to_date now body d))"
    if "present body cid name sd ed \<and> getCar_db d cid = None"
    using that create_db_not_found [of body cid name sd ed d parse to_date now] by simp
  show "isl (snd (create_im parse now body s))"
    if "present body cid name sd ed \<and> getCar_im s cid = Some car
          \<and> (\<not> available car \<or> daysInclusive parse sd ed = 0)" for car
    using that create_im_unavailable [of body cid name sd ed s car parse now]
      create_im_invalid_dates [of body cid name sd ed s car parse now]
    by (cases "available car") auto
  show "isl (snd (create_db parse to_date now body d))"
    if "present body cid name sd ed \<and> getCar_db d cid = Some car
          \<and> (\<not> available car \<or> daysInclusive parse sd ed = 0)" for car
    using that create_db_unavailable [of body cid name sd ed d car parse to_date now]
      create_db_invalid_dates [of body cid name sd ed d car parse to_date now]
    by (cases "available car") auto
  show "isl (snd (update_im parse now i ubody s))" if "getRental_im s i = None"
    using that by (simp add: update_im_not_found)
  show "isl (snd (delete_im i s))" if "getRental_im s i = None"
    using that by (simp add: delete_im_not_found)
  show "isl (snd (update_db parse to_date now i ubody d))" if "getRental_db d i = None"
    using that by (simp add: update_db_not_found)
  show "isl (snd (delete_db i d))" if "getRental_db d i = None"
    using that by (simp add: delete_db_not_found)
  show "isl (snd (update_im parse now i ubody s))"
    if "getRental_im s i = Some r \<and> truthy_str (u_end_date ubody) = Some ed
          \<and> daysInclusive parse (start_date r) ed = 0" for r ed
    using that update_im_invalid_end_date [of s i r ubody ed parse now] by simp
  show "isl (snd (update_db parse to_date now i ubody d))"
    if "getRental_db d i = Some r \<and> truthy_str (u_end_date ubody) = Some ed
          \<and> (getTime parse ed = None
             \<or> (\<exists>e. getTime parse ed = Some e \<and> e < start_date r))" for r ed
    using that update_db_invalid_end_date [of d i r ubody ed parse to_date now] by simp
qed

lemma missing_rental:
  "getRental_im rented_im 999 = None" "getRental_db rented_db 999 = None"
  by code_simp+

lemma days_shortened: "daysInclusive isoDate ''2025-01-01'' ''2024-12-31'' = 0"
  by code_simp

lemma end_shortened: "getTime isoDate ''2024-12-31'' = Some 1735603200000"
  by code_simp

theorem failures_change_nothing_witness:
  "fst (create_im isoDate 2 only_car_id rented_im) = rented_im
   \<and> fst (create_db isoDate isoDate 2 only_car_id rented_db) = rented_db
   \<and> fst (create_im isoDate 2 unknown_car (initDB_im 0)) = initDB_im 0
   \<and> fst (create_db isoDate isoDate 2 unknown_car (initDB_db 0)) = initDB_db 0
   \<and> fst (create_im isoDate 2 reversed rented_im) = rented_im
   \<and> fst (create_db isoDate isoDate 2 reversed rented_db) = rented_db
   \<and> fst (create_im isoDate 2 reversed (initDB_im 0)) = initDB_im 0
   \<and> fst (create_db isoDate isoDate 2 reversed (initDB_db 0)) = initDB_db 0
   \<and> fst (update_im isoDate 2 999 (set_status ''returned'') rented_im) = rented_im
   \<and> fst (update_db isoDate isoDate 2 999 (set_status ''returned'') rented_db) = rented_db
   \<and> fst (update_im isoDate 2 1 (set_end_date ''2024-12-31'') rented_im) = rented_im
   \<and> fst (update_db isoDate isoDate 2 1 (set_end_date ''2024-12-31'') rented_db) = rented_db
   \<and> fst (delete_im 999 rented_im) = rented_im
   \<and> fst (delete_db 999 rented_db) = rented_db"
proof -
  have e: "truthy_str (u_end_date (set_end_date ''2024-12-31'')) = Some ''2024-12-31''"
    "start_date (alice_rental ''ongoing'' 1) = ''2025-01-01''"
    "start_date (alice_row ''ongoing'' 1) = 1735689600000"
    by (simp_all add: set_end_date_def truthy_str_def alice_rental_def alice_row_def)
  have a: "\<not> available (toyota False)"
    by (simp add: toyota_def)
  show ?thesis
    using failures_change_nothing [where parse = isoDate and to_date = isoDate and now = 2 and body = only_car_id
        and s = rented_im and d = rented_db and i = 999 and ubody = "set_status ''returned''"]
      failures_change_nothing [where parse = isoDate and to_date = isoDate and now = 2 and body = unknown_car
        and cid = 999 and name = "''Alice''" and sd = "''2025-01-01''"
        and ed = "''2025-01-03''" and s = "initDB_im 0" and d = "initDB_db 0"]
      failures_change_nothing [where parse = isoDate and to_date = isoDate and now = 2 and body = reversed
        and cid = 1 and name = "''Carol''" and sd = "''2025-01-05''"
        and ed = "''2025-01-01''" and s = rented_im and d = rented_db and i = 1
        and ubody = "set_end_date ''2024-12-31''"]
      failures_change_nothing [where parse = isoDate and to_date = isoDate and now = 2 and body = reversed
        and cid = 1 and name = "''Carol''" and sd = "''2025-01-05''"
        and ed = "''2025-01-01''" and s = "initDB_im 0" and d = "initDB_db 0"]
      only_car_id_missing unknown_car_present reversed_present seeded_cars rented_cars
      days_reversed missing_rental rented_rentals days_shortened end_shortened e a
    by (simp add: toyota_def)
qed

section \<open>Revenue\<close>

lemma foldl_plus_sum_list:
  "foldl (\<lambda>sum r. sum + f r) a xs = (a::int) + sum_list (map f xs)"
  by (induction xs arbitrary: a) auto

text \<open>The in-memory branch adds up every rental, whatever its status.\<close>

lemma updateMetrics_im_revenue:
  "totalRevenue (updateMetrics_im s) = sum_list (map total_cost (inMemoryRentals s))"
  by (simp add: updateMetrics_im_def foldl_plus_sum_list)

lemma updateMetrics_db_revenue:
  "totalRevenue (updateMetrics_db d)
     = sum_list (map total_cost
         (filter (\<lambda>r. status r = ''ongoing'' \<or> status r = ''returned'') (rentals_tbl d)))"
  by (simp add: updateMetrics_db_def)

text \<open>
  Claim C4 holds of the MySQL branch and fails in memory: after Alice's rental of
  105.00 was cancelled, its only rental is cancelled and \<^verbatim>\<open>GET /metrics\<close> still reports a
  revenue of 105.00, where MySQL reports 0.
\<close>

theorem cancelled_revenue_in_memory:
  "map status (inMemoryRentals cancelled_im) = [''cancelled'']
   \<and> revenue_total (metrics_json (updateMetrics_im cancelled_im)) = 10500
   \<and> map status (rentals_tbl cancelled_db) = [''cancelled'']
   \<and> revenue_total (metrics_json (updateMetrics_db cancelled_db)) = 0"
  by code_simp

section \<open>Rental ids\<close>

lemma fold_max_ge: "(a::int) \<le> fold max xs a"
  by (induction xs arbitrary: a) (auto intro: order_trans [OF max.cobounded2])

lemma fold_max_bound: "x \<in> set xs \<Longrightarrow> (x::int) \<le> fold max xs a"
proof (induction xs arbitrary: a)
  case Nil
  then show ?case by simp
next
  case (Cons y ys)
  show ?case
  proof (cases "x = y")
    case True
    have "y \<le> max y a" by simp
    also have "\<dots> \<le> fold max ys (max y a)" by (rule fold_max_ge)
    finally show ?thesis using True by simp
  next
    case False
    then show ?thesis using Cons by simp
  qed
qed

text \<open>What the in-memory allocation does give: an id above every id now in the array.\<close>

lemma newId_greater: "r \<in> set rentals \<Longrightarrow> r_id r < newId rentals"
proof -
  assume r: "r \<in> set rentals"
  then obtain x xs where m: "map r_id rentals = x # xs"
    by (cases rentals) auto
  have "r_id r \<in> set (x # xs)"
    using r m by (metis image_eqI list.set_map)
  then have "r_id r \<le> fold max xs x"
    using fold_max_bound [of "r_id r" xs x] fold_max_ge [of x xs] by auto
  then show ?thesis
    using m by (simp add: newId_def)
qed

text \<open>
  Claim C9 fails in memory: the id is one more than the greatest id in the array, so
  after the rental with the greatest id is deleted its id is given out again. Alice
  rents car 1 and gets id 1, the rental is deleted, Bob rents car 2 and gets id 1.
\<close>

theorem deleted_id_reused_in_memory:
  "run_im isoDate 1 [PostRental alice, DeleteRental 1, PostRental bob] (initDB_im 0)
     = [Created (Inr \<lparr>cr_id = 1, cr_car_id = 1, cr_renter_name = ''Alice'',
                      cr_start_date = ''2025-01-01'', cr_end_date = ''2025-01-03'',
                      cr_total_cost = 10500, cr_status = Some ''ongoing'',
                      cr_created_at = Some 1, cr_updated_at = Some 1,
                      cr_message = ''Rental created (in-memory)''\<rparr>),
        Deleted (Inr ''Rental deleted (in-memory)''),
        Created (Inr \<lparr>cr_id = 1, cr_car_id = 2, cr_renter_name = ''Bob'',
                      cr_start_date = ''2025-01-01'', cr_end_date = ''2025-01-05'',
                      cr_total_cost = 18750, cr_status = Some ''ongoing'',
                      cr_created_at = Some 3, cr_updated_at = Some 3,
                      cr_message = ''Rental created (in-memory)''\<rparr>)]"
  by code_simp

text \<open>The MySQL branch, on the same requests, gives Bob's rental the id 2.\<close>

lemma deleted_id_not_reused_in_mysql:
  "run_db isoDate isoDate 1 [PostRental alice, DeleteRental 1, PostRental bob] (initDB_db 0)
     = [Created (Inr \<lparr>cr_id = 1, cr_car_id = 1, cr_renter_name = ''Alice'',
                      cr_start_date = ''2025-01-01'', cr_end_date = ''2025-01-03'',
                      cr_total_cost = 10500, cr_status = None,
                      cr_created_at = None, cr_updated_at = None,
                      cr_message = ''Rental created''\<rparr>),
        Deleted (Inr ''Rental deleted''),
        Created (Inr \<lparr>cr_id = 2, cr_car_id = 2, cr_renter_name = ''Bob'',
                      cr_start_date = ''2025-01-01'', cr_end_date = ''2025-01-05'',
                      cr_total_cost = 18750, cr_status = None,
                      cr_created_at = None, cr_updated_at = None,
                      cr_message = ''Rental created''\<rparr>)]"
  by code_simp

section \<open>The counter of the rentals table\<close>

text \<open>
  What the MySQL branch does give: the table never holds an id at or above its counter,
  the counter never goes down, and a rental that is created gets the counter's value,
  which is then advanced. So an id, once given, is never given again.
\<close>

lemma update_rows_ids_comp:
  "map (r_id \<circ> (\<lambda>x. if r_id x = i
                        then (let x' = x\<lparr>end_date := e, total_cost := c, status := st\<rparr>
                              in if x' = x then x else x'\<lparr>updated_at := now\<rparr>)
                        else x)) xs = map r_id xs"
  by (induction xs) (auto simp: Let_def)

lemma update_db_counter:
  "update_db parse to_date now i body d = (d', Inr rep) \<Longrightarrow>
   rentals_auto_increment d' = rentals_auto_increment d"
  by (auto simp: update_db_def Let_def
      split: list.splits sum.splits option.splits prod.splits if_splits)

lemma create_db_id:
  "create_db parse to_date now body d = (d', Inr rep) \<Longrightarrow>
   cr_id rep = rentals_auto_increment d
   \<and> rentals_auto_increment d' = rentals_auto_increment d + 1
   \<and> (\<exists>r. rentals_tbl d' = rentals_tbl d @ [r] \<and> r_id r = rentals_auto_increment d)"
  by (auto simp: create_db_def Let_def split: option.splits list.splits if_splits)

lemma handle_db_counter:
  assumes "ids_below_counter d"
  shows "ids_below_counter (fst (handle_db parse to_date now q d))
         \<and> rentals_auto_increment d \<le> rentals_auto_increment (fst (handle_db parse to_date now q d))"
proof (cases q)
  case GetCars
  then show ?thesis using assms by simp
next
  case (PostRental body)
  show ?thesis
  proof (cases "snd (create_db parse to_date now body d)")
    case (Inl e)
    then have "fst (create_db parse to_date now body d) = d"
      using create_db_failure [of parse to_date now body d] by simp
    then show ?thesis using assms PostRental by (simp add: split_beta)
  next
    case (Inr rep)
    obtain d' where d': "create_db parse to_date now body d = (d', Inr rep)"
      using Inr by (cases "create_db parse to_date now body d") auto
    obtain r where "rentals_tbl d' = rentals_tbl d @ [r]" "r_id r = rentals_auto_increment d"
      "rentals_auto_increment d' = rentals_auto_increment d + 1"
      using create_db_id [OF d'] by blast
    then have "ids_below_counter d' \<and> rentals_auto_increment d \<le> rentals_auto_increment d'"
      using assms by (auto simp: ids_below_counter_def list_all_iff)
    then show ?thesis
      using PostRental d' by (simp add: split_beta)
  qed
next
  case (PutRental i body)
  show ?thesis
  proof (cases "snd (update_db parse to_date now i body d)")
    case (Inl e)
    then have "fst (update_db parse to_date now i body d) = d"
      using update_db_failure [of parse to_date now i body d] by simp
    then show ?thesis using assms PutRental by (simp add: split_beta)
  next
    case (Inr rep)
    obtain d' where d': "update_db parse to_date now i body d = (d', Inr rep)"
      using Inr by (cases "update_db parse to_date now i body d") auto
    then obtain r where r: "getRental_db d i = Some r"
      using update_db_not_found [of d i parse to_date now body] by (cases "getRental_db d i") auto
    obtain new_end where "rentals_tbl d' =
           map (\<lambda>x. if r_id x = i
                     then (let x' = x\<lparr>end_date := new_end,
                                       total_cost := ur_total_cost rep,
                                       status := ur_status rep\<rparr>
                           in if x' = x then x else x'\<lparr>updated_at := now\<rparr>)
                     else x) (rentals_tbl d)"
      using update_db_rentals(1) [OF r d'] by blast
    then have "map r_id (rentals_tbl d') = map r_id (rentals_tbl d)"
      by (simp add: update_rows_ids_comp)
    moreover have "rentals_auto_increment d' = rentals_auto_increment d"
      using d' by (rule update_db_counter)
    ultimately have "ids_below_counter d'"
      using assms unfolding ids_below_counter_def list_all_iff
      by (metis (no_types, lifting) image_iff list.set_map)
    then show ?thesis
      using PutRental d' \<open>rentals_auto_increment d' = rentals_auto_increment d\<close>
      by (simp add: split_beta)
  qed
next
  case (DeleteRental i)
  then show ?thesis
    using assms by (auto simp: split_beta delete_db_def Let_def ids_below_counter_def list_all_iff)
next
  case GetMetrics
  then show ?thesis using assms by simp
qed

section \<open>The two stores side by side\<close>

text \<open>
  Claim C5. The two stores do not answer alike. From the seeded state, Alice rents
  car 1, the rental is cancelled, and the metrics are read. The answer to the
  \<^verbatim>\<open>POST\<close> carries the status and the two times in memory and none of them in MySQL. The
  answer to the \<^verbatim>\<open>PUT\<close> carries the id as a number and the end date as the string of the
  request in memory; in MySQL it carries the id as the string of the route and the end
  date as the \<^verbatim>\<open>Date\<close> of the row. The revenue counts the cancelled rental in memory and
  does not in MySQL.
\<close>

theorem stores_answer_differently:
  "run_im isoDate 1 [PostRental alice, PutRental 1 (set_status ''cancelled''), GetMetrics]
       (initDB_im 0)
     = [Created (Inr \<lparr>cr_id = 1, cr_car_id = 1, cr_renter_name = ''Alice'',
                      cr_start_date = ''2025-01-01'', cr_end_date = ''2025-01-03'',
                      cr_total_cost = 10500, cr_status = Some ''ongoing'',
                      cr_created_at = Some 1, cr_updated_at = Some 1,
                      cr_message = ''Rental created (in-memory)''\<rparr>),
        Updated (Inr \<lparr>ur_message = ''Rental updated (in-memory)'', ur_id = 1,
                      ur_status = ''cancelled'', ur_end_date = ''2025-01-03'',
                      ur_total_cost = 10500\<rparr>),
        Metrics \<lparr>rentals_total = 1, rentals_active = 0, rentals_completed = 1,
                 revenue_total = 10500\<rparr>]
   \<and> run_db isoDate isoDate 1
       [PostRental alice, PutRental 1 (set_status ''cancelled''), GetMetrics] (initDB_db 0)
     = [Created (Inr \<lparr>cr_id = 1, cr_car_id = 1, cr_renter_name = ''Alice'',
                      cr_start_date = ''2025-01-01'', cr_end_date = ''2025-01-03'',
                      cr_total_cost = 10500, cr_status = None,
                      cr_created_at = None, cr_updated_at = None,
                      cr_message = ''Rental created''\<rparr>),
        Updated (Inr \<lparr>ur_message = ''Rental updated'', ur_id = ''1'',
                      ur_status = ''cancelled'', ur_end_date = Stored 1735862400000,
                      ur_total_cost = 10500\<rparr>),
        Metrics \<lparr>rentals_total = 1, rentals_active = 0, rentals_completed = 1,
                 revenue_total = 0\<rparr>]"
  by code_simp

end
